theory Spec2Isabelle
  imports Main "HOL-Library.AList"
begin

section \<open>Values, Python dictionaries and exceptions\<close>

text \<open>
  The functions of this repository exchange attribute values with a single DynamoDB table:
  strings \<^verbatim>\<open>{"S": ...}\<close>, numbers \<^verbatim>\<open>{"N": ...}\<close>, lists
  \<^verbatim>\<open>{"L": [...]}\<close> and maps \<^verbatim>\<open>{"M": {...}}\<close>. A number travels as its
  decimal text (\<^verbatim>\<open>{"N": str(timestamp)}\<close>); the model keeps the integer it denotes.
  The same datatype stands for the plain Python values of a decoded message or of a
  record read back from the table: \<open>S\<close> a \<^verbatim>\<open>str\<close>, \<open>N\<close> an \<^verbatim>\<open>int\<close>, \<open>L\<close> a
  \<^verbatim>\<open>list\<close>, \<open>M\<close> a \<^verbatim>\<open>dict\<close> with string keys, \<open>NULL\<close> is \<^verbatim>\<open>None\<close>. A dictionary
  is an association list read with \<open>map_of\<close> and written with \<open>AList.update\<close>.
\<close>

datatype attr = S string | N int | L "attr list" | M "(string \<times> attr) list" | NULL

type_synonym pydict = "(string \<times> attr) list"

type_synonym item = "(string \<times> attr) list"

type_synonym key = "string \<times> string"

type_synonym table = "key \<Rightarrow> item option"

datatype client_error =
    ConditionalCheckFailedException
  | TransactionCanceledException
  | ValidationException

datatype exn =
    ClientError client_error
  | KeyError string
  | TypeError
  | AttributeError
  | ParamValidationError
  | DecodeError
  | Exception string
  | Exception_from client_error

text \<open>\<^verbatim>\<open>d[k]\<close> on a dictionary, \<^verbatim>\<open>v[k]\<close> on a value that should be one.\<close>

definition getitem :: "pydict \<Rightarrow> string \<Rightarrow> exn + attr" where
  "getitem d k = (case map_of d k of Some v \<Rightarrow> Inr v | None \<Rightarrow> Inl (KeyError k))"

fun subscript :: "attr \<Rightarrow> string \<Rightarrow> exn + attr" where
  "subscript (M d) k = getitem d k"
| "subscript v k = Inl TypeError"

text \<open>Sequencing of steps that may raise, outside the world.\<close>

fun and_then :: "exn + 'a \<Rightarrow> ('a \<Rightarrow> exn + 'b) \<Rightarrow> exn + 'b" where
  "and_then (Inl e) f = Inl e"
| "and_then (Inr x) f = f x"

text \<open>\<^verbatim>\<open>d[k] += 1\<close>.\<close>

definition increment :: "pydict \<Rightarrow> string \<Rightarrow> exn + pydict" where
  "increment d k =
     (case map_of d k of
        None \<Rightarrow> Inl (KeyError k)
      | Some (N n) \<Rightarrow> Inr (AList.update k (N (n + 1)) d)
      | Some v \<Rightarrow> Inl TypeError)"

text \<open>\<^verbatim>\<open>d.get(k)\<close> and \<^verbatim>\<open>d.get(k, default)\<close>.\<close>

definition dict_get :: "pydict \<Rightarrow> string \<Rightarrow> attr" where
  "dict_get d k = (case map_of d k of Some v \<Rightarrow> v | None \<Rightarrow> NULL)"

definition dict_get_or :: "pydict \<Rightarrow> string \<Rightarrow> attr \<Rightarrow> attr" where
  "dict_get_or d k dflt = (case map_of d k of Some v \<Rightarrow> v | None \<Rightarrow> dflt)"

text \<open>
  A value handed to the client where it requires a \<^verbatim>\<open>str\<close> (\<^verbatim>\<open>{"S": v}\<close>, an
  expression attribute name): anything else is refused before the request is sent.
\<close>

fun as_str :: "attr \<Rightarrow> exn + string" where
  "as_str (S s) = Inr s"
| "as_str v = Inl ParamValidationError"

text \<open>A value that the code goes on to subscript or to read with \<^verbatim>\<open>.get\<close>.\<close>

fun as_dict :: "attr \<Rightarrow> exn + pydict" where
  "as_dict (M d) = Inr d"
| "as_dict v = Inl TypeError"

text \<open>\<^verbatim>\<open>str(n)\<close> for an integer.\<close>

fun str_nat :: "nat \<Rightarrow> string" where
  "str_nat n =
     (if n < 10 then [char_of (48 + n)]
      else str_nat (n div 10) @ [char_of (48 + n mod 10)])"

declare str_nat.simps [simp del]

definition str_int :: "int \<Rightarrow> string" where
  "str_int i = (if i < 0 then CHR ''-'' # str_nat (nat (- i)) else str_nat (nat i))"

text \<open>
  \<^verbatim>\<open>str(v)\<close>, as \<^verbatim>\<open>"event#{}".format(v)\<close> uses it. Every key of this program is built
  from a string; for a list or a dictionary the text is Python's \<^verbatim>\<open>repr\<close>, written
  here without the escaping of quotes inside nested strings.
\<close>

fun join :: "string \<Rightarrow> string list \<Rightarrow> string" where
  "join sep [] = []"
| "join sep [x] = x"
| "join sep (x # y # ys) = x @ sep @ join sep (y # ys)"

fun py_repr :: "attr \<Rightarrow> string" where
  "py_repr (S s) = CHR 0x27 # s @ [CHR 0x27]"
| "py_repr (N n) = str_int n"
| "py_repr (L xs) = ''['' @ join '', '' (map py_repr xs) @ '']''"
| "py_repr (M kvs) =
     ''{'' @ join '', '' (map (\<lambda>kv. CHR 0x27 # fst kv @ [CHR 0x27] @ '': '' @ py_repr (snd kv)) kvs)
       @ ''}''"
| "py_repr NULL = ''None''"

fun py_str :: "attr \<Rightarrow> string" where
  "py_str (S s) = s"
| "py_str v = py_repr v"

text \<open>Truthiness, as \<^verbatim>\<open>if d.get(k, False):\<close> tests it.\<close>

fun truthy :: "attr \<Rightarrow> bool" where
  "truthy NULL = False"
| "truthy (S s) = (s \<noteq> [])"
| "truthy (N n) = (n \<noteq> 0)"
| "truthy (L xs) = (xs \<noteq> [])"
| "truthy (M d) = (d \<noteq> [])"

text \<open>
  \<^verbatim>\<open>{"N": str(v)}\<close>: the table takes the text when it is a number. The numbers of the
  model are the integers: the text of an \<^verbatim>\<open>int\<close> denotes that integer, a string is
  read as an optional minus sign and decimal digits, anything else is refused.
\<close>

fun nat_of_digits :: "nat \<Rightarrow> string \<Rightarrow> nat option" where
  "nat_of_digits acc [] = Some acc"
| "nat_of_digits acc (c # cs) =
     (if 48 \<le> (of_char c :: nat) \<and> (of_char c :: nat) \<le> 57
      then nat_of_digits (10 * acc + (of_char c - 48)) cs
      else None)"

fun int_of_str :: "string \<Rightarrow> int option" where
  "int_of_str [] = None"
| "int_of_str (c # cs) =
     (if c = CHR ''-'' then (if cs = [] then None else map_option (\<lambda>n. - int n) (nat_of_digits 0 cs))
      else map_option int (nat_of_digits 0 (c # cs)))"

fun number_of_str :: "attr \<Rightarrow> attr option" where
  "number_of_str (N n) = Some (N n)"
| "number_of_str (S s) = map_option N (int_of_str s)"
| "number_of_str v = None"


section \<open>The table: conditional writes, update expressions, transactions\<close>

text \<open>
  The part of DynamoDB that the functions call. A document path is \<^verbatim>\<open>#a\<close> or
  \<^verbatim>\<open>#a.#b\<close>, with the expression attribute names already substituted; an update
  expression is a list of \<^verbatim>\<open>SET\<close> actions whose right-hand sides are read in the
  item as it was before the update. An update of a missing item creates it. A
  right-hand side that reads a missing attribute, adds to a value that is not a number,
  or a target \<^verbatim>\<open>#a.#b\<close> whose \<^verbatim>\<open>#a\<close> is not a map, rejects the update; so do two
  targets that overlap.
\<close>

datatype path = Top string | Nested string string

datatype operand =
    Path path
  | Value attr
  | If_not_exists path operand
  | List_append operand operand

datatype setvalue = Operand operand | Plus operand operand | Minus operand operand

type_synonym set_action = "path \<times> setvalue"

datatype condition =
    Attribute_exists path
  | Attribute_not_exists path
  | And condition condition

datatype transact_item =
    Put item "condition option"
  | Update key "set_action list" "condition option"

fun get_path :: "item \<Rightarrow> path \<Rightarrow> attr option" where
  "get_path it (Top a) = map_of it a"
| "get_path it (Nested a b) =
     (case map_of it a of Some (M m) \<Rightarrow> map_of m b | _ \<Rightarrow> None)"

fun set_path :: "item \<Rightarrow> path \<Rightarrow> attr \<Rightarrow> item option" where
  "set_path it (Top a) v = Some (AList.update a v it)"
| "set_path it (Nested a b) v =
     (case map_of it a of
        Some (M m) \<Rightarrow> Some (AList.update a (M (AList.update b v m)) it)
      | _ \<Rightarrow> None)"

fun eval_operand :: "item \<Rightarrow> operand \<Rightarrow> attr option" where
  "eval_operand it (Path p) = get_path it p"
| "eval_operand it (Value v) = Some v"
| "eval_operand it (If_not_exists p d) =
     (case get_path it p of Some v \<Rightarrow> Some v | None \<Rightarrow> eval_operand it d)"
| "eval_operand it (List_append a b) =
     (case (eval_operand it a, eval_operand it b) of
        (Some (L xs), Some (L ys)) \<Rightarrow> Some (L (xs @ ys))
      | _ \<Rightarrow> None)"

fun eval_setvalue :: "item \<Rightarrow> setvalue \<Rightarrow> attr option" where
  "eval_setvalue it (Operand a) = eval_operand it a"
| "eval_setvalue it (Plus a b) =
     (case (eval_operand it a, eval_operand it b) of
        (Some (N x), Some (N y)) \<Rightarrow> Some (N (x + y))
      | _ \<Rightarrow> None)"
| "eval_setvalue it (Minus a b) =
     (case (eval_operand it a, eval_operand it b) of
        (Some (N x), Some (N y)) \<Rightarrow> Some (N (x - y))
      | _ \<Rightarrow> None)"

fun overlaps :: "path \<Rightarrow> path \<Rightarrow> bool" where
  "overlaps (Top a) (Top b) = (a = b)"
| "overlaps (Top a) (Nested b y) = (a = b)"
| "overlaps (Nested a x) (Top b) = (a = b)"
| "overlaps (Nested a x) (Nested b y) = (a = b \<and> x = y)"

fun no_overlap :: "path list \<Rightarrow> bool" where
  "no_overlap [] = True"
| "no_overlap (p # ps) = (list_all (\<lambda>q. \<not> overlaps p q) ps \<and> no_overlap ps)"

fun apply_sets :: "item \<Rightarrow> item \<Rightarrow> set_action list \<Rightarrow> item option" where
  "apply_sets orig cur [] = Some cur"
| "apply_sets orig cur ((p, e) # acts) =
     (case eval_setvalue orig e of
        None \<Rightarrow> None
      | Some v \<Rightarrow>
          (case set_path cur p v of
             None \<Rightarrow> None
           | Some cur' \<Rightarrow> apply_sets orig cur' acts))"

definition apply_update :: "item \<Rightarrow> set_action list \<Rightarrow> item option" where
  "apply_update it acts =
     (if no_overlap (map fst acts) then apply_sets it it acts else None)"

fun holds :: "item option \<Rightarrow> condition \<Rightarrow> bool" where
  "holds it (Attribute_exists p) = (case it of None \<Rightarrow> False | Some i \<Rightarrow> get_path i p \<noteq> None)"
| "holds it (Attribute_not_exists p) = (case it of None \<Rightarrow> True | Some i \<Rightarrow> get_path i p = None)"
| "holds it (And c d) = (holds it c \<and> holds it d)"

definition holds_opt :: "item option \<Rightarrow> condition option \<Rightarrow> bool" where
  "holds_opt it c = (case c of None \<Rightarrow> True | Some c' \<Rightarrow> holds it c')"

text \<open>The key of an item is the pair of its \<^verbatim>\<open>pk\<close> and \<^verbatim>\<open>sk\<close> attributes.\<close>

definition key_of :: "item \<Rightarrow> key option" where
  "key_of it =
     (case (map_of it ''pk'', map_of it ''sk'') of
        (Some (S p), Some (S s)) \<Rightarrow> Some (p, s)
      | _ \<Rightarrow> None)"

definition key_item :: "key \<Rightarrow> item" where
  "key_item k = [(''pk'', S (fst k)), (''sk'', S (snd k))]"

fun write_key :: "transact_item \<Rightarrow> key option" where
  "write_key (Put it c) = key_of it"
| "write_key (Update k acts c) = Some k"

text \<open>One write against the table; \<open>None\<close> when its condition or its expression fails.\<close>

fun apply_write :: "table \<Rightarrow> transact_item \<Rightarrow> table option" where
  "apply_write tbl (Put it c) =
     (case key_of it of
        None \<Rightarrow> None
      | Some k \<Rightarrow> if holds_opt (tbl k) c then Some (tbl(k \<mapsto> it)) else None)"
| "apply_write tbl (Update k acts c) =
     (if holds_opt (tbl k) c then
        (case apply_update (case tbl k of None \<Rightarrow> key_item k | Some it \<Rightarrow> it) acts of
           None \<Rightarrow> None
         | Some it' \<Rightarrow> Some (tbl(k \<mapsto> it')))
      else None)"

fun apply_writes :: "table \<Rightarrow> transact_item list \<Rightarrow> table option" where
  "apply_writes tbl [] = Some tbl"
| "apply_writes tbl (i # is) =
     (case apply_write tbl i of None \<Rightarrow> None | Some tbl' \<Rightarrow> apply_writes tbl' is)"

text \<open>
  \<^verbatim>\<open>transact_write_items\<close>: all the writes or none. A request that names one item twice,
  or an item without its key, is refused as invalid; a failed condition or expression
  cancels the transaction. The items being distinct, writing them one after the other
  is writing them at once.
\<close>

definition transact_write_items :: "transact_item list \<Rightarrow> table \<Rightarrow> client_error + table" where
  "transact_write_items items tbl =
     (if \<not> list_all (\<lambda>i. write_key i \<noteq> None) items \<or> \<not> distinct (map write_key items)
      then Inl ValidationException
      else case apply_writes tbl items of
             None \<Rightarrow> Inl TransactionCanceledException
           | Some tbl' \<Rightarrow> Inr tbl')"

definition update_item :: "key \<Rightarrow> set_action list \<Rightarrow> table \<Rightarrow> client_error + table" where
  "update_item k acts tbl =
     (case apply_update (case tbl k of None \<Rightarrow> key_item k | Some it \<Rightarrow> it) acts of
        None \<Rightarrow> Inl ValidationException
      | Some it' \<Rightarrow> Inr (tbl(k \<mapsto> it')))"

text \<open>
  Modelled from the spec: \<^verbatim>\<open>thirtyone.aws.get_dynamodb_record_for\<close>, whose source is
  not among the functions. The store's \<^emph>\<open>get\<close> by partition and sort key returns the
  record as a dictionary of plain values, the empty dictionary when there is none (the
  callers apply \<^verbatim>\<open>.get\<close> and truth tests to the result).
\<close>

definition get_dynamodb_record_for :: "string \<Rightarrow> string \<Rightarrow> table \<Rightarrow> pydict" where
  "get_dynamodb_record_for pk sk tbl = (case tbl (pk, sk) of None \<Rightarrow> [] | Some it \<Rightarrow> it)"

section \<open>The world of a handler: table, queue, notifications, clock\<close>

datatype topic = NEW_EVENT_CREATED | EVENT_UPDATED | EVENT_CANCELLED

record world =
  table :: table
  sns :: "(topic \<times> pydict) list"
  sqs :: "string list"
  warnings :: "string list"
  errors :: "exn list"
  utcnow :: int

text \<open>
  \<open>sns\<close> holds the notifications published so far, \<open>sqs\<close> the receipt handles of the
  messages still in the queue, \<open>warnings\<close> and \<open>errors\<close> what \<^verbatim>\<open>logging.warning\<close> and
  \<^verbatim>\<open>logging.exception\<close> wrote (\<^verbatim>\<open>logging.info\<close> is below the level the modules
  configure and is left out), \<open>utcnow\<close> the epoch second that
  \<^verbatim>\<open>int(datetime.utcnow().timestamp())\<close> returns. A computation takes the world and
  returns its result, or the exception it raised, with the world as it left it.
\<close>

type_synonym 'a io = "world \<Rightarrow> (exn + 'a) \<times> world"

definition ret :: "'a \<Rightarrow> 'a io" where
  "ret x w = (Inr x, w)"

definition raise :: "exn \<Rightarrow> 'a io" where
  "raise e w = (Inl e, w)"

definition lift :: "exn + 'a \<Rightarrow> 'a io" where
  "lift r w = (r, w)"

definition then_do :: "'a io \<Rightarrow> ('a \<Rightarrow> 'b io) \<Rightarrow> 'b io" where
  "then_do m f w = (case m w of (Inl e, w') \<Rightarrow> (Inl e, w') | (Inr x, w') \<Rightarrow> f x w')"

definition warning :: "string \<Rightarrow> unit io" where
  "warning msg w = (Inr (), w\<lparr>warnings := warnings w @ [msg]\<rparr>)"

definition read_table :: "(table \<Rightarrow> 'a) \<Rightarrow> 'a io" where
  "read_table f w = (Inr (f (table w)), w)"

definition now :: "int io" where
  "now w = (Inr (utcnow w), w)"

text \<open>A call of the client that writes: a refusal is raised as a \<^verbatim>\<open>ClientError\<close>.\<close>

definition client_call :: "(table \<Rightarrow> client_error + table) \<Rightarrow> unit io" where
  "client_call f w =
     (case f (table w) of
        Inl e \<Rightarrow> (Inl (ClientError e), w)
      | Inr tbl' \<Rightarrow> (Inr (), w\<lparr>table := tbl'\<rparr>))"

text \<open>\<^verbatim>\<open>try: ... except ClientError as error: ...\<close>; any other exception passes.\<close>

definition except_ClientError :: "'a io \<Rightarrow> (client_error \<Rightarrow> 'a io) \<Rightarrow> 'a io" where
  "except_ClientError m handler w =
     (case m w of
        (Inl (ClientError e), w') \<Rightarrow> handler e w'
      | r \<Rightarrow> r)"

text \<open>
  Modelled from the spec: \<^verbatim>\<open>thirtyone.aws.publish_sns_message\<close>, whose source is not
  among the functions. The outbound event is handed to the notification component, an
  external collaborator: the model appends the message (the dictionary that
  \<^verbatim>\<open>json.dumps\<close> serialises) and its topic to the notifications published.
\<close>

definition publish_sns_message :: "pydict \<Rightarrow> topic \<Rightarrow> unit io" where
  "publish_sns_message message arn w = (Inr (), w\<lparr>sns := sns w @ [(arn, message)]\<rparr>)"

text \<open>
  An SQS record as the handlers use it: its receipt handle, and the message that
  \<^verbatim>\<open>aws.get_sqs_message_with_sns_notification_from\<close> decodes from its body (\<open>None\<close> when
  the body does not decode, which raises).
\<close>

record sqs_record =
  receiptHandle :: "string option"
  body :: "pydict option"

text \<open>
  Modelled from the spec: \<^verbatim>\<open>thirtyone.aws.get_sqs_message_with_sns_notification_from\<close>,
  whose source is not among the functions. The inbound message is decoded from the
  transport envelope into a flat mapping; \<open>body = None\<close> stands for an envelope that does
  not decode, which raises.
\<close>

definition get_sqs_message_with_sns_notification_from :: "sqs_record \<Rightarrow> pydict io" where
  "get_sqs_message_with_sns_notification_from record =
     (case body record of None \<Rightarrow> raise DecodeError | Some message \<Rightarrow> ret message)"

definition valid_sqs_message_from :: "sqs_record \<Rightarrow> bool" where
  "valid_sqs_message_from request =
     (case receiptHandle request of None \<Rightarrow> False | Some h \<Rightarrow> h \<noteq> [])"

text \<open>
  Modelled from the spec: \<^verbatim>\<open>thirtyone.aws.delete_sqs_message\<close>, whose source is not among
  the functions. Acknowledging a message removes it from the transport.
\<close>

definition delete_sqs_message :: "string \<Rightarrow> unit io" where
  "delete_sqs_message task_id w = (Inr (), w\<lparr>sqs := removeAll task_id (sqs w)\<rparr>)"

definition clean_up_successful_task :: "string \<Rightarrow> unit io" where
  "clean_up_successful_task identification = delete_sqs_message identification"

definition delete_successfully_processed_sqs :: "sqs_record \<Rightarrow> unit io" where
  "delete_successfully_processed_sqs message =
     (if valid_sqs_message_from message
      then clean_up_successful_task (the (receiptHandle message))
      else ret ())"

text \<open>
  The batch loop of every \<^verbatim>\<open>lambda_handler\<close>: each record is processed in turn, an
  exception is logged and counted in \<^verbatim>\<open>tasks["failed"]\<close>; \<^verbatim>\<open>cleanup_all\<close> raises when the
  count is not zero.
\<close>

fun for_records :: "(sqs_record \<Rightarrow> unit io) \<Rightarrow> sqs_record list \<Rightarrow> pydict \<Rightarrow> world \<Rightarrow> pydict \<times> world" where
  "for_records process [] tasks w = (tasks, w)"
| "for_records process (record # records) tasks w =
     (case process record w of
        (Inr u, w') \<Rightarrow> for_records process records tasks w'
      | (Inl error, w') \<Rightarrow>
          for_records process records
            (AList.update ''failed''
               (N ((case dict_get_or tasks ''failed'' (N 0) of N n \<Rightarrow> n | _ \<Rightarrow> 0) + 1)) tasks)
            (w'\<lparr>errors := errors w' @ [error]\<rparr>))"

definition cleanup_all :: "pydict \<Rightarrow> string io" where
  "cleanup_all tasks =
     (if truthy (dict_get tasks ''failed'')
      then raise (Exception (py_str (dict_get tasks ''failed'') @ '' tasks failed''))
      else ret ''Complete'')"


section \<open>update\_event and cancel\_event\_2\<close>

text \<open>Both modules resolve the event through the lookup of its original identifier.\<close>

definition get_event_uid_from :: "attr \<Rightarrow> pydict io" where
  "get_event_uid_from uid =
     read_table (get_dynamodb_record_for
       (''original_event#'' @ py_str uid) (''original_event#'' @ py_str uid))"

definition get_event_from :: "attr \<Rightarrow> pydict io" where
  "get_event_from uid =
     read_table (get_dynamodb_record_for (''event#'' @ py_str uid) (''event#'' @ py_str uid))"

subsection \<open>update\_event/app.py\<close>

definition update_fields :: "string list" where
  "update_fields =
     [''summary'', ''summary_html'', ''location'', ''location_html'',
      ''dtend'', ''dtstart'', ''description'', ''description_html'']"

definition event_updated :: "pydict \<Rightarrow> pydict \<Rightarrow> bool" where
  "event_updated original_event new_event =
     list_ex (\<lambda>val. dict_get original_event val \<noteq> dict_get new_event val) update_fields"

text \<open>
  \<^verbatim>\<open>update_event\<close> changes the dictionary it was given and writes the event; the model
  returns the changed dictionary (the response of the write is not read by the caller).
  The fields read for the expression attribute values were assigned just before, so
  reading them cannot raise.
\<close>

definition update_event :: "pydict \<Rightarrow> pydict \<Rightarrow> pydict io" where
  "update_event original_event new_event =
     (let event1 = fold (\<lambda>val ev. AList.update val (dict_get new_event val) ev)
                     update_fields original_event in
      then_do now (\<lambda>timestamp.
      let event2 = AList.update ''dtstamp'' (N timestamp) event1;
          event3 = AList.update ''last_modified'' (N timestamp) event2 in
      then_do (lift (increment event3 ''sequence'')) (\<lambda>event4.
      then_do (lift (getitem event4 ''uid'')) (\<lambda>uid.
      then_do
        (case (number_of_str (dict_get event4 ''dtend''),
               number_of_str (dict_get event4 ''dtstart''),
               number_of_str (dict_get event4 ''sequence'')) of
           (Some dtend, Some dtstart, Some sequence) \<Rightarrow>
             client_call (update_item (''event#'' @ py_str uid, ''event#'' @ py_str uid)
               [(Top ''dtstamp'', Operand (Value (N timestamp))),
                (Top ''last_modified'', Operand (Value (N timestamp))),
                (Top ''summary'', Operand (Value (S (py_str (dict_get event4 ''summary''))))),
                (Top ''summary_html'', Operand (Value (S (py_str (dict_get event4 ''summary_html''))))),
                (Top ''location'', Operand (Value (S (py_str (dict_get event4 ''location''))))),
                (Top ''location_html'', Operand (Value (S (py_str (dict_get event4 ''location_html''))))),
                (Top ''dtend'', Operand (Value dtend)),
                (Top ''dtstart'', Operand (Value dtstart)),
                (Top ''description'', Operand (Value (S (py_str (dict_get event4 ''description''))))),
                (Top ''description_html'',
                   Operand (Value (S (py_str (dict_get event4 ''description_html''))))),
                (Top ''sequence'', Operand (Value sequence))])
         | _ \<Rightarrow> raise (ClientError ValidationException))
        (\<lambda>status. ret event4)))))"

definition stage_update_fields :: "string list" where
  "stage_update_fields =
     [''description'', ''description_html'', ''dtend'', ''dtstamp'', ''dtstart'',
      ''last_modified'', ''location'', ''location_html'', ''status'', ''mailto'', ''method'',
      ''original_organizer'', ''organizer'', ''sequence'', ''summary'', ''summary_html'', ''uid'']"

definition stage_updated :: "pydict \<Rightarrow> pydict" where
  "stage_updated event = map (\<lambda>field. (field, dict_get_or event field (S []))) stage_update_fields"

definition send_notification_of_updated :: "pydict \<Rightarrow> unit io" where
  "send_notification_of_updated event = publish_sns_message event EVENT_UPDATED"

definition process_request_from_update :: "sqs_record \<Rightarrow> unit io" where
  "process_request_from_update record =
     then_do (get_sqs_message_with_sns_notification_from record) (\<lambda>request.
     then_do (lift (getitem request ''original_uid'')) (\<lambda>original_uid.
     then_do (get_event_uid_from original_uid) (\<lambda>original_event.
     then_do (lift (getitem original_event ''uid'')) (\<lambda>uid.
     then_do (get_event_from uid) (\<lambda>event.
     if event_updated event request then
       then_do (update_event event request) (\<lambda>updated_event.
       then_do (send_notification_of_updated (stage_updated updated_event)) (\<lambda>u.
       delete_successfully_processed_sqs record))
     else ret ())))))"

definition lambda_handler_update :: "sqs_record list \<Rightarrow> string io" where
  "lambda_handler_update records w =
     (case for_records process_request_from_update records [] w of
        (tasks, w') \<Rightarrow> cleanup_all tasks w')"

subsection \<open>cancel\_event\_2/app.py\<close>

definition event_is_not_cancelled :: "pydict \<Rightarrow> exn + bool" where
  "event_is_not_cancelled event =
     and_then (getitem event ''status'') (\<lambda>status. Inr (status \<noteq> S ''cancelled''))"

text \<open>
  \<^verbatim>\<open>cancel_event\<close> changes the dictionary it was given and writes the event; the model
  returns the changed dictionary, which is what \<^verbatim>\<open>event.update(cancel_event(event))\<close>
  leaves in \<^verbatim>\<open>event\<close> for the fields that are staged afterwards.
\<close>

definition cancel_event :: "pydict \<Rightarrow> pydict io" where
  "cancel_event event =
     then_do now (\<lambda>timestamp.
     let event1 = AList.update ''method'' (S ''cancel'') event;
         event2 = AList.update ''status'' (S ''cancelled'') event1;
         event3 = AList.update ''dtstamp'' (N timestamp) event2;
         event4 = AList.update ''last_modified'' (N timestamp) event3 in
     then_do (lift (increment event4 ''sequence'')) (\<lambda>event5.
     then_do (lift (getitem event5 ''uid'')) (\<lambda>uid.
     then_do (lift (as_str (dict_get event5 ''method''))) (\<lambda>method.
     then_do (lift (as_str (dict_get event5 ''status''))) (\<lambda>status.
     then_do
       (case number_of_str (dict_get event5 ''sequence'') of
          Some sequence \<Rightarrow>
            client_call (update_item (''event#'' @ py_str uid, ''event#'' @ py_str uid)
              [(Top ''dtstamp'', Operand (Value (N timestamp))),
               (Top ''last_modified'', Operand (Value (N timestamp))),
               (Top ''method'', Operand (Value (S method))),
               (Top ''status'', Operand (Value (S status))),
               (Top ''sequence'', Operand (Value sequence))])
        | None \<Rightarrow> raise (ClientError ValidationException))
       (\<lambda>response. ret event5))))))"

definition cancellation_fields :: "string list" where
  "cancellation_fields =
     [''description'', ''dtend'', ''dtstamp'', ''dtstart'', ''last_modified'', ''location'',
      ''status'', ''mailto'', ''method'', ''original_organizer'', ''organizer'', ''sequence'',
      ''summary'', ''uid'']"

definition stage_cancelled :: "pydict \<Rightarrow> pydict" where
  "stage_cancelled event = map (\<lambda>field. (field, dict_get_or event field (S []))) cancellation_fields"

definition send_notification_of_cancelled :: "pydict \<Rightarrow> unit io" where
  "send_notification_of_cancelled event = publish_sns_message event EVENT_CANCELLED"

definition process_request_from_cancel :: "sqs_record \<Rightarrow> unit io" where
  "process_request_from_cancel record =
     then_do (get_sqs_message_with_sns_notification_from record) (\<lambda>request.
     then_do (lift (getitem request ''original_uid'')) (\<lambda>original_uid.
     then_do (get_event_uid_from original_uid) (\<lambda>original_event.
     then_do (lift (getitem original_event ''uid'')) (\<lambda>uid.
     then_do (get_event_from uid) (\<lambda>event.
     then_do (lift (event_is_not_cancelled event)) (\<lambda>not_cancelled.
     then_do
       (if not_cancelled then
          then_do (cancel_event event) (\<lambda>cancelled.
          send_notification_of_cancelled (stage_cancelled cancelled))
        else ret ())
       (\<lambda>u. delete_successfully_processed_sqs record)))))))"

definition lambda_handler_cancel :: "sqs_record list \<Rightarrow> string io" where
  "lambda_handler_cancel records w =
     (case for_records process_request_from_cancel records [] w of
        (tasks, w') \<Rightarrow> cleanup_all tasks w')"


section \<open>update\_event\_attendee\_record/app.py\<close>

definition get_current_attendee_record_for :: "pydict \<Rightarrow> pydict io" where
  "get_current_attendee_record_for event_reply =
     then_do (lift (getitem event_reply ''uid'')) (\<lambda>uid.
     then_do (lift (getitem event_reply ''attendee'')) (\<lambda>attendee.
     read_table (get_dynamodb_record_for
       (''event#'' @ py_str uid) (''attendee#'' @ py_str attendee))))"

definition get_organizer_for :: "attr \<Rightarrow> attr io" where
  "get_organizer_for uid =
     then_do (read_table (get_dynamodb_record_for
                (''event#'' @ py_str uid) (''event#'' @ py_str uid)))
       (\<lambda>record. lift (getitem record ''mailto''))"

definition get_attendee_update_record_for :: "pydict \<Rightarrow> transact_item io" where
  "get_attendee_update_record_for event_reply =
     then_do now (\<lambda>timestamp.
     lift (
       and_then (getitem event_reply ''uid'') (\<lambda>uid.
       and_then (getitem event_reply ''attendee'') (\<lambda>attendee.
       and_then (and_then (getitem event_reply ''prodid'') as_str) (\<lambda>prodid.
       and_then (and_then (getitem event_reply ''partstat'') as_str) (\<lambda>partstat.
       Inr (Update (''event#'' @ py_str uid, ''attendee#'' @ py_str attendee)
              [(Top ''created'', Operand (Value (N timestamp))),
               (Top ''prodid'', Operand (Value (S prodid))),
               (Top ''status'', Operand (Value (S partstat))),
               (Top ''history'',
                  Operand (List_append (Path (Top ''history''))
                    (Value (L [L [S partstat, S (str_int timestamp), S prodid]]))))]
              (Some (And (Attribute_exists (Top ''pk'')) (Attribute_exists (Top ''sk'')))))))))))"

definition get_shared_attendee_record_for :: "pydict \<Rightarrow> transact_item io" where
  "get_shared_attendee_record_for event_reply =
     then_do now (\<lambda>timestamp.
     then_do (lift (getitem event_reply ''uid'')) (\<lambda>uid.
     then_do (lift (getitem event_reply ''attendee'')) (\<lambda>attendee.
     then_do (get_organizer_for uid) (\<lambda>organizer.
     lift (
       and_then (as_str organizer) (\<lambda>mailto.
       and_then (as_str attendee) (\<lambda>attendee_s.
       and_then (as_str (dict_get_or event_reply ''name'' (S ''customer''))) (\<lambda>name.
       and_then (and_then (getitem event_reply ''partstat'') as_str) (\<lambda>partstat.
       and_then (and_then (getitem event_reply ''prodid'') as_str) (\<lambda>prodid.
       Inr (Put
              [(''pk'', S (''event#'' @ py_str uid)),
               (''sk'', S (''attendee#'' @ py_str attendee)),
               (''mailto'', S mailto),
               (''attendee'', S attendee_s),
               (''created'', N timestamp),
               (''name'', S name),
               (''status'', S partstat),
               (''origin'', S ''shared''),
               (''prodid'', S prodid),
               (''history'', L [L [S partstat, N timestamp, S prodid]])]
              (Some (And (Attribute_not_exists (Top ''pk''))
                         (Attribute_not_exists (Top ''sk'')))))))))))))))"

text \<open>
  The update of one statistics record for a reply. For an attendee that exists, one
  expression adds to the new bucket and takes from the previous one; for a new attendee
  of shared origin it adds to the bucket, to \<^verbatim>\<open>attendees\<close>, and to the origin and prodid
  counters, these two starting from zero when absent.
\<close>

definition get_statistics_record_update_for_reply ::
  "pydict \<Rightarrow> string \<Rightarrow> string \<Rightarrow> attr \<Rightarrow> bool \<Rightarrow> exn + transact_item" where
  "get_statistics_record_update_for_reply event_reply primary_key sortkey previous_status shared =
     and_then (and_then (getitem event_reply ''partstat'') as_str) (\<lambda>partstat.
     if \<not> shared then
       and_then (as_str previous_status) (\<lambda>previous.
       Inr (Update (primary_key, sortkey)
              [(Nested ''rsvp'' partstat,
                  Plus (Path (Nested ''rsvp'' partstat)) (Value (N 1))),
               (Nested ''rsvp'' previous,
                  Minus (Path (Nested ''rsvp'' previous)) (Value (N 1)))]
              None))
     else
       and_then (and_then (getitem event_reply ''prodid'') as_str) (\<lambda>prodid.
       Inr (Update (primary_key, sortkey)
              [(Nested ''rsvp'' partstat,
                  Plus (Path (Nested ''rsvp'' partstat)) (Value (N 1))),
               (Top ''attendees'', Plus (Path (Top ''attendees'')) (Value (N 1))),
               (Nested ''origin'' ''shared'',
                  Plus (If_not_exists (Nested ''origin'' ''shared'') (Value (N 0))) (Value (N 1))),
               (Nested ''prodid'' prodid,
                  Plus (If_not_exists (Nested ''prodid'' prodid) (Value (N 0))) (Value (N 1)))]
              None)))"

definition reraise_as_Exception :: "client_error \<Rightarrow> 'a io" where
  "reraise_as_Exception error = raise (Exception_from error)"

definition submit_updated_event_attend_record_for :: "pydict \<Rightarrow> attr \<Rightarrow> unit io" where
  "submit_updated_event_attend_record_for event_reply previous_status =
     except_ClientError
       (then_do (lift (getitem event_reply ''uid'')) (\<lambda>uid.
        then_do (get_organizer_for uid) (\<lambda>organizer.
        then_do (get_attendee_update_record_for event_reply) (\<lambda>attendee_update.
        then_do (lift (get_statistics_record_update_for_reply event_reply
                   (''event#'' @ py_str uid) (''event_statistics#'' @ py_str uid)
                   previous_status False)) (\<lambda>event_statistics.
        then_do (lift (get_statistics_record_update_for_reply event_reply
                   (''organizer#'' @ py_str organizer)
                   (''organizer_statistics#'' @ py_str organizer)
                   previous_status False)) (\<lambda>organizer_statistics.
        then_do (lift (get_statistics_record_update_for_reply event_reply
                   ''system#'' ''system_statistics#'' previous_status False))
          (\<lambda>system_statistics.
        client_call (transact_write_items
          [attendee_update, event_statistics, organizer_statistics, system_statistics]))))))))
       reraise_as_Exception"

definition submit_shared_event_attend_record_for :: "pydict \<Rightarrow> unit io" where
  "submit_shared_event_attend_record_for event_reply =
     except_ClientError
       (then_do (lift (getitem event_reply ''uid'')) (\<lambda>uid.
        then_do (get_organizer_for uid) (\<lambda>organizer.
        then_do (get_shared_attendee_record_for event_reply) (\<lambda>attendee_record.
        then_do (lift (get_statistics_record_update_for_reply event_reply
                   (''event#'' @ py_str uid) (''event_statistics#'' @ py_str uid)
                   NULL True)) (\<lambda>event_statistics.
        then_do (lift (get_statistics_record_update_for_reply event_reply
                   (''organizer#'' @ py_str organizer)
                   (''organizer_statistics#'' @ py_str organizer)
                   NULL True)) (\<lambda>organizer_statistics.
        then_do (lift (get_statistics_record_update_for_reply event_reply
                   ''system#'' ''system_statistics#'' NULL True))
          (\<lambda>system_statistics.
        client_call (transact_write_items
          [attendee_record, event_statistics, organizer_statistics, system_statistics]))))))))
       reraise_as_Exception"

definition update_event_attendee_record_with :: "pydict \<Rightarrow> unit io" where
  "update_event_attendee_record_with event_reply =
     then_do (get_current_attendee_record_for event_reply) (\<lambda>attendee_record.
     if truthy (dict_get attendee_record ''status'') then
       then_do (lift (getitem event_reply ''partstat'')) (\<lambda>partstat.
       if dict_get_or attendee_record ''status'' (S []) \<noteq> partstat then
         then_do (lift (getitem attendee_record ''status'')) (\<lambda>previous_status.
         submit_updated_event_attend_record_for event_reply previous_status)
       else warning ''RSVP already processed'')
     else
       then_do (warning ''Attendee does not exist'') (\<lambda>u.
       submit_shared_event_attend_record_for event_reply))"

definition process_request_from_reply :: "sqs_record \<Rightarrow> unit io" where
  "process_request_from_reply record =
     then_do (get_sqs_message_with_sns_notification_from record) (\<lambda>event_reply.
     then_do (update_event_attendee_record_with event_reply) (\<lambda>u.
     delete_successfully_processed_sqs record))"

definition lambda_handler_reply :: "sqs_record list \<Rightarrow> string io" where
  "lambda_handler_reply records w =
     (case for_records process_request_from_reply records [] w of
        (tasks, w') \<Rightarrow> cleanup_all tasks w')"


section \<open>send\_event\_invite/app.py\<close>


definition get_attendee_record_for :: "pydict \<Rightarrow> attr \<Rightarrow> transact_item io" where
  "get_attendee_record_for invite organizer =
     then_do now (\<lambda>timestamp.
     lift (
       and_then (getitem invite ''uid'') (\<lambda>uid.
       and_then (getitem invite ''email'') (\<lambda>email.
       and_then (as_str email) (\<lambda>attendee.
       and_then (as_str organizer) (\<lambda>mailto.
       and_then (as_str (dict_get_or invite ''name'' (S ''customer''))) (\<lambda>name.
       and_then (and_then (getitem invite ''partstat'') as_str) (\<lambda>partstat.
       and_then (and_then (getitem invite ''origin'') as_str) (\<lambda>origin.
       Inr (Put
              [(''pk'', S (''event#'' @ py_str uid)),
               (''sk'', S (''attendee#'' @ py_str email)),
               (''attendee'', S attendee),
               (''mailto'', S mailto),
               (''created'', N timestamp),
               (''name'', S name),
               (''status'', S partstat),
               (''origin'', S origin),
               (''prodid'', S ''-//31events//calendarsnack//en''),
               (''history'',
                  L [L [S partstat, N timestamp, S ''-//31events//calendarsnack//en'']])]
              (Some (And (Attribute_not_exists (Top ''pk''))
                         (Attribute_not_exists (Top ''sk''))))))))))))))"

definition get_statistics_record_update_for_invite ::
  "string \<Rightarrow> string \<Rightarrow> pydict \<Rightarrow> exn + transact_item" where
  "get_statistics_record_update_for_invite primary_key sortkey invite =
     and_then (and_then (getitem invite ''origin'') as_str) (\<lambda>origin.
     and_then (and_then (getitem invite ''prodid'') as_str) (\<lambda>prodid.
     and_then (and_then (getitem invite ''partstat'') as_str) (\<lambda>partstat.
     Inr (Update (primary_key, sortkey)
            [(Top ''attendees'', Plus (Path (Top ''attendees'')) (Value (N 1))),
             (Nested ''origin'' origin,
                Plus (If_not_exists (Nested ''origin'' origin) (Value (N 0))) (Value (N 1))),
             (Nested ''prodid'' prodid,
                Plus (If_not_exists (Nested ''prodid'' prodid) (Value (N 0))) (Value (N 1))),
             (Nested ''rsvp'' partstat,
                Plus (Path (Nested ''rsvp'' partstat)) (Value (N 1)))]
            None))))"

definition get_event_invite_limit_record_update_for :: "pydict \<Rightarrow> exn + transact_item" where
  "get_event_invite_limit_record_update_for invite =
     and_then (getitem invite ''uid'') (\<lambda>uid.
     Inr (Update (''event#'' @ py_str uid, ''event#'' @ py_str uid)
            [(Top ''invite_limit'', Minus (Path (Top ''invite_limit'')) (Value (N 1)))]
            None))"

definition create_record_of_attendee :: "pydict \<Rightarrow> unit io" where
  "create_record_of_attendee invite =
     except_ClientError
       (then_do (lift (getitem invite ''request'')) (\<lambda>request_value.
        then_do (lift (and_then (getitem invite ''event'') (\<lambda>event. subscript event ''mailto'')))
          (\<lambda>mailto.
        then_do (lift (as_dict request_value)) (\<lambda>request.
        then_do (get_attendee_record_for request mailto) (\<lambda>attendee_record.
        then_do (lift (get_event_invite_limit_record_update_for request)) (\<lambda>invite_limit.
        then_do (lift (getitem request ''uid'')) (\<lambda>uid.
        then_do (lift (get_statistics_record_update_for_invite
                   (''event#'' @ py_str uid) (''event_statistics#'' @ py_str uid) request))
          (\<lambda>event_statistics.
        then_do (lift (get_statistics_record_update_for_invite
                   (''organizer#'' @ py_str mailto) (''organizer_statistics#'' @ py_str mailto)
                   request))
          (\<lambda>organizer_statistics.
        then_do (lift (get_statistics_record_update_for_invite
                   ''system#'' ''system_statistics#'' request))
          (\<lambda>system_statistics.
        client_call (transact_write_items
          [attendee_record, invite_limit, event_statistics, organizer_statistics,
           system_statistics])))))))))))
       reraise_as_Exception"

section \<open>create\_new\_event\_record/app.py\<close>

text \<open>
  The staged event is in the table's format already; \<^verbatim>\<open>request["uid"]["S"]\<close> reads the
  string of a field.
\<close>

definition wire_S :: "item \<Rightarrow> string \<Rightarrow> exn + string" where
  "wire_S request k =
     (case map_of request k of
        None \<Rightarrow> Inl (KeyError k)
      | Some (S s) \<Rightarrow> Inr s
      | Some v \<Rightarrow> Inl (KeyError ''S''))"



definition get_statistics_record_for :: "item \<Rightarrow> exn + item" where
  "get_statistics_record_for request =
     and_then (wire_S request ''uid'') (\<lambda>uid.
     and_then (wire_S request ''mailto'') (\<lambda>mailto.
     Inr [(''pk'', S (''event#'' @ uid)),
          (''sk'', S (''event_statistics#'' @ uid)),
          (''tenant'', S ''thirtyone''),
          (''mailto'', S mailto),
          (''attendees'', N 0),
          (''origin'', M []),
          (''prodid'', M []),
          (''rsvp'', M [(''accepted'', N 0), (''declined'', N 0),
                        (''noaction'', N 0), (''tentative'', N 0)])]))"



datatype response = Response | Error_response client_error



section \<open>The statistics invariant\<close>

text \<open>
  A statistics record is balanced when its \<^verbatim>\<open>rsvp\<close> map is a proper dictionary of
  numbers whose sum is \<^verbatim>\<open>attendees\<close>: \<^verbatim>\<open>sum(rsvp.values()) == attendees\<close>. The three
  scopes are told by their sort keys.
\<close>

fun is_number :: "attr \<Rightarrow> bool" where
  "is_number (N n) = True"
| "is_number v = False"

fun number :: "attr \<Rightarrow> int" where
  "number (N n) = n"
| "number v = 0"

definition rsvp_sum :: "pydict \<Rightarrow> int" where
  "rsvp_sum rsvp = sum_list (map (\<lambda>kv. number (snd kv)) rsvp)"

definition balanced :: "item \<Rightarrow> bool" where
  "balanced it =
     (case (map_of it ''attendees'', map_of it ''rsvp'') of
        (Some (N attendees), Some (M rsvp)) \<Rightarrow>
          distinct (map fst rsvp) \<and> list_all (\<lambda>kv. is_number (snd kv)) rsvp
          \<and> rsvp_sum rsvp = attendees
      | _ \<Rightarrow> False)"

definition statistics_key :: "key \<Rightarrow> bool" where
  "statistics_key k =
     (take 17 (snd k) = ''event_statistics#''
      \<or> take 21 (snd k) = ''organizer_statistics#''
      \<or> snd k = ''system_statistics#'')"

definition balanced_at :: "table \<Rightarrow> key \<Rightarrow> bool" where
  "balanced_at tbl k = (case tbl k of None \<Rightarrow> False | Some it \<Rightarrow> balanced it)"

text \<open>A write keeps the balance when no table it applies to loses a balanced statistics record.\<close>

definition keeps_balance :: "transact_item \<Rightarrow> bool" where
  "keeps_balance i =
     (\<forall>t t' k. statistics_key k \<longrightarrow> apply_write t i = Some t' \<longrightarrow> balanced_at t k
        \<longrightarrow> balanced_at t' k)"

section \<open>A concrete table and concrete messages\<close>

text \<open>
  One event \<^verbatim>\<open>E1\<close> of organizer \<^verbatim>\<open>a@x.com\<close>, created from the original identifier
  \<^verbatim>\<open>X\<close>, with one attendee \<^verbatim>\<open>b@y.com\<close> whose reply so far is tentative.
\<close>

definition example_statistics :: "string \<Rightarrow> string \<Rightarrow> item" where
  "example_statistics pk sk =
     [(''pk'', S pk), (''sk'', S sk), (''events'', N 1), (''attendees'', N 1),
      (''origin'', M [(''bulk'', N 1)]),
      (''prodid'', M [(''31events//ses'', N 1)]),
      (''rsvp'', M [(''accepted'', N 0), (''declined'', N 0),
                    (''noaction'', N 0), (''tentative'', N 1)])]"

definition example_event :: item where
  "example_event =
     [(''pk'', S ''event#E1''), (''sk'', S ''event#E1''), (''uid'', S ''E1''),
      (''original_uid'', S ''X''), (''mailto'', S ''a@x.com''),
      (''organizer'', S ''Ann''), (''original_organizer'', S ''Ann''),
      (''status'', S ''confirmed''), (''method'', S ''request''), (''sequence'', N 0),
      (''summary'', S ''Party''), (''summary_html'', S ''<b>Party</b>''),
      (''location'', S ''Hall''), (''location_html'', S ''<i>Hall</i>''),
      (''description'', S ''Come''), (''description_html'', S ''<p>Come</p>''),
      (''dtstart'', N 5000), (''dtend'', N 6000), (''dtstamp'', N 1000),
      (''created'', N 1000), (''last_modified'', N 1000),
      (''invite_limit'', N 10), (''tenant'', S ''thirtyone'')]"

definition example_attendee :: item where
  "example_attendee =
     [(''pk'', S ''event#E1''), (''sk'', S ''attendee#b@y.com''),
      (''attendee'', S ''b@y.com''), (''mailto'', S ''a@x.com''), (''created'', N 1500),
      (''name'', S ''Bob''), (''status'', S ''tentative''), (''origin'', S ''bulk''),
      (''prodid'', S ''p1''),
      (''history'', L [L [S ''noaction'', N 1200, S ''-//31events//calendarsnack//en''],
                       L [S ''tentative'', S ''1500'', S ''p1'']])]"

definition example_table :: table where
  "example_table =
     map_of
       [((''original_event#X'', ''original_event#X''),
         [(''pk'', S ''original_event#X''), (''sk'', S ''original_event#X''),
          (''uid'', S ''E1''), (''mailto'', S ''a@x.com'')]),
        ((''event#E1'', ''event#E1''), example_event),
        ((''event#E1'', ''event_statistics#E1''),
         example_statistics ''event#E1'' ''event_statistics#E1''),
        ((''event#E1'', ''attendee#b@y.com''), example_attendee),
        ((''organizer#a@x.com'', ''organizer_statistics#a@x.com''),
         example_statistics ''organizer#a@x.com'' ''organizer_statistics#a@x.com''),
        ((''system#'', ''system_statistics#''),
         example_statistics ''system#'' ''system_statistics#'')]"

definition example_world :: world where
  "example_world =
     \<lparr>table = example_table, sns = [], sqs = [''h1''], warnings = [], errors = [],
      utcnow = 2000\<rparr>"

definition example_reply :: "string \<Rightarrow> pydict" where
  "example_reply partstat =
     [(''attendee'', S ''b@y.com''), (''dtstamp'', N 1900), (''partstat'', S partstat),
      (''prodid'', S ''p2''), (''uid'', S ''E1'')]"

definition example_update :: "string \<Rightarrow> pydict" where
  "example_update summary =
     [(''original_uid'', S ''X''), (''uid'', S ''E1''), (''mailto'', S ''a@x.com''),
      (''summary'', S summary), (''summary_html'', S ''<b>Party</b>''),
      (''location'', S ''Hall''), (''location_html'', S ''<i>Hall</i>''),
      (''description'', S ''Come''), (''description_html'', S ''<p>Come</p>''),
      (''dtstart'', N 5000), (''dtend'', N 6000)]"

definition example_record :: "pydict \<Rightarrow> sqs_record" where
  "example_record message = \<lparr>receiptHandle = Some ''h1'', body = Some message\<rparr>"

text \<open>An invite of a new attendee to \<^verbatim>\<open>E1\<close>, as the bulk sender stages it.\<close>

definition example_invite :: pydict where
  "example_invite =
     [(''request'',
       M [(''email'', S ''c@z.com''), (''name'', S ''Cy''), (''origin'', S ''vip''),
          (''partstat'', S ''noaction''), (''prodid'', S ''31events//ses''),
          (''uid'', S ''E1'')]),
      (''event'', M example_event)]"

text \<open>A request that creates a second event \<^verbatim>\<open>E2\<close> from the original identifier \<^verbatim>\<open>Y\<close>.\<close>

definition example_staged :: "string \<Rightarrow> item" where
  "example_staged summary =
     [(''pk'', S ''event#E2''), (''sk'', S ''event#E2''), (''uid'', S ''E2''),
      (''original_uid'', S ''Y''), (''mailto'', S ''a@x.com''), (''organizer'', S ''Ann''),
      (''original_organizer'', S ''Ann''), (''status'', S ''confirmed''),
      (''method'', S ''request''), (''sequence'', N 0), (''summary'', S summary),
      (''dtstart'', N 7000), (''dtend'', N 8000), (''dtstamp'', N 1900),
      (''created'', N 1900), (''last_modified'', N 1900), (''invite_limit'', N 10),
      (''invite_limit_notification'', S ''False''), (''tenant'', S ''thirtyone'')]"

definition example_request :: "string \<Rightarrow> pydict" where
  "example_request summary =
     [(''uid'', S ''E2''), (''original_uid'', S ''Y''), (''mailto'', S ''a@x.com''),
      (''organizer'', S ''Ann''), (''status'', S ''confirmed''), (''method'', S ''request''),
      (''sequence'', N 0), (''summary'', S summary), (''description'', S ''Soon''),
      (''dtstart'', N 7000), (''dtend'', N 8000)]"

definition example_organizer :: pydict where
  "example_organizer =
     [(''email'', S ''a@x.com''), (''paid'', NULL),
      (''statistics'', M (example_statistics ''organizer#a@x.com''
                            ''organizer_statistics#a@x.com''))]"

section \<open>Lemmas on dictionaries and on the world\<close>

lemmas io_defs = ret_def raise_def lift_def then_do_def now_def read_table_def client_call_def
  except_ClientError_def warning_def publish_sns_message_def reraise_as_Exception_def

lemmas example_defs = example_world_def example_table_def example_event_def
  example_attendee_def example_statistics_def example_reply_def example_update_def
  example_record_def example_invite_def example_staged_def example_request_def
  example_organizer_def

lemma getitem_Some [simp]: "map_of d k = Some v \<Longrightarrow> getitem d k = Inr v"
  by (simp add: getitem_def)

lemma getitem_None [simp]: "map_of d k = None \<Longrightarrow> getitem d k = Inl (KeyError k)"
  by (simp add: getitem_def)

lemma dict_get_Some [simp]: "map_of d k = Some v \<Longrightarrow> dict_get d k = v"
  by (simp add: dict_get_def)

lemma dict_get_or_Some [simp]: "map_of d k = Some v \<Longrightarrow> dict_get_or d k x = v"
  by (simp add: dict_get_or_def)

lemma record_for_Some [simp]:
  "tbl (pk, sk) = Some it \<Longrightarrow> get_dynamodb_record_for pk sk tbl = it"
  by (simp add: get_dynamodb_record_for_def)

lemma increment_N [simp]:
  "map_of d k = Some (N n) \<Longrightarrow> increment d k = Inr (AList.update k (N (n + 1)) d)"
  by (simp add: increment_def)


lemma delete_sqs:
  "delete_successfully_processed_sqs record w =
     (Inr (), w\<lparr>sqs := (if valid_sqs_message_from record
                          then removeAll (the (receiptHandle record)) (sqs w) else sqs w)\<rparr>)"
  by (simp add: delete_successfully_processed_sqs_def clean_up_successful_task_def
      delete_sqs_message_def ret_def)

lemmas process_defs = get_sqs_message_with_sns_notification_from_def get_event_uid_from_def
  get_event_from_def delete_sqs


lemma then_do_Inr:
  "then_do m f w = (Inr x, w') \<longleftrightarrow> (\<exists>y w1. m w = (Inr y, w1) \<and> f y w1 = (Inr x, w'))"
  by (cases "m w"; cases "fst (m w)") (auto simp add: then_do_def)

lemma lift_Inr: "lift r w = (Inr x, w') \<longleftrightarrow> r = Inr x \<and> w' = w"
  by (auto simp add: lift_def)

lemma ret_Inr: "ret y w = (Inr x, w') \<longleftrightarrow> x = y \<and> w' = w"
  by (auto simp add: ret_def)

lemma now_Inr: "now w = (Inr x, w') \<longleftrightarrow> x = utcnow w \<and> w' = w"
  by (auto simp add: now_def)

lemma read_table_Inr: "read_table f w = (Inr x, w') \<longleftrightarrow> x = f (table w) \<and> w' = w"
  by (auto simp add: read_table_def)

lemma warning_Inr:
  "warning msg w = (Inr x, w') \<longleftrightarrow> w' = w\<lparr>warnings := warnings w @ [msg]\<rparr>"
  by (auto simp add: warning_def)

lemma and_then_Inr: "and_then r f = Inr x \<longleftrightarrow> (\<exists>y. r = Inr y \<and> f y = Inr x)"
  by (cases r) auto

lemma except_reraise_Inr:
  "except_ClientError m reraise_as_Exception w = (Inr x, w') \<longleftrightarrow> m w = (Inr x, w')"
proof (cases "m w")
  case (Pair r w1)
  then show ?thesis
    by (cases r; cases "projl r")
       (auto simp add: except_ClientError_def reraise_as_Exception_def raise_def)
qed

lemma client_call_Inr:
  "client_call f w = (Inr x, w') \<longleftrightarrow> (\<exists>tbl'. f (table w) = Inr tbl' \<and> w' = w\<lparr>table := tbl'\<rparr>)"
  by (cases "f (table w)") (auto simp add: client_call_def)

lemma transact_Inr:
  "transact_write_items items tbl = Inr tbl' \<Longrightarrow> apply_writes tbl items = Some tbl'"
  by (auto simp add: transact_write_items_def split: if_splits option.splits)

lemmas inversion = then_do_Inr lift_Inr ret_Inr now_Inr read_table_Inr warning_Inr and_then_Inr
  except_reraise_Inr client_call_Inr


section \<open>Lemmas on update expressions and on writes\<close>

lemma apply_sets_Cons_Some:
  "apply_sets orig cur ((p, e) # acts) = Some it' \<longleftrightarrow>
   (\<exists>v cur'. eval_setvalue orig e = Some v \<and> set_path cur p v = Some cur'
      \<and> apply_sets orig cur' acts = Some it')"
  by (auto split: option.splits)

lemma plus_Some:
  "eval_setvalue it (Plus a b) = Some v \<longleftrightarrow>
   (\<exists>x y. eval_operand it a = Some (N x) \<and> eval_operand it b = Some (N y) \<and> v = N (x + y))"
  by (cases "eval_operand it a"; cases "eval_operand it b"; simp;
      cases "the (eval_operand it a)"; cases "the (eval_operand it b)"; auto)

lemma minus_Some:
  "eval_setvalue it (Minus a b) = Some v \<longleftrightarrow>
   (\<exists>x y. eval_operand it a = Some (N x) \<and> eval_operand it b = Some (N y) \<and> v = N (x - y))"
  by (cases "eval_operand it a"; cases "eval_operand it b"; simp;
      cases "the (eval_operand it a)"; cases "the (eval_operand it b)"; auto)

lemma get_nested_Some:
  "get_path it (Nested a b) = Some v \<longleftrightarrow> (\<exists>m. map_of it a = Some (M m) \<and> map_of m b = Some v)"
  by (cases "map_of it a"; simp; cases "the (map_of it a)"; simp)

lemma set_top_Some:
  "set_path it (Top a) v = Some it' \<longleftrightarrow> it' = AList.update a v it"
  by auto

lemma set_nested_Some:
  "set_path it (Nested a b) v = Some it' \<longleftrightarrow>
   (\<exists>m. map_of it a = Some (M m) \<and> it' = AList.update a (M (AList.update b v m)) it)"
  by (cases "map_of it a"; simp; cases "the (map_of it a)"; auto)


lemma apply_write_other_key:
  assumes "apply_write tbl i = Some tbl'" and "write_key i = Some k0" and "k \<noteq> k0"
  shows "tbl' k = tbl k"
  using assms by (cases i) (auto split: option.splits if_splits)




section \<open>Lemmas on the balance of the statistics\<close>

lemma rsvp_sum_update:
  "distinct (map fst r) \<Longrightarrow> map_of r k = Some v \<Longrightarrow>
   rsvp_sum (AList.update k v' r) = rsvp_sum r - number v + number v'"
proof (induction r)
  case Nil
  then show ?case by simp
next
  case (Cons kv r)
  then show ?case
    by (cases kv) (auto simp add: rsvp_sum_def)
qed

lemma numbers_update:
  "list_all (\<lambda>kv. is_number (snd kv)) r \<Longrightarrow> is_number v \<Longrightarrow>
   list_all (\<lambda>kv. is_number (snd kv)) (AList.update k v r)"
  by (induction r) auto

lemma balancedE:
  assumes "balanced it"
  obtains a r where "map_of it ''attendees'' = Some (N a)" and "map_of it ''rsvp'' = Some (M r)"
    and "distinct (map fst r)" and "list_all (\<lambda>kv. is_number (snd kv)) r" and "rsvp_sum r = a"
  using assms unfolding balanced_def
  by (cases "map_of it ''attendees''"; cases "map_of it ''rsvp''"; simp;
      cases "the (map_of it ''attendees'')"; cases "the (map_of it ''rsvp'')"; simp)

lemma balanced_step:
  assumes "balanced it"
    and "map_of it ''rsvp'' = Some (M r)"
    and "map_of it ''attendees'' = Some (N a)"
    and "map_of it' ''attendees'' = Some (N (a + d))"
    and "map_of it' ''rsvp'' = Some (M r')"
    and "distinct (map fst r) \<Longrightarrow> distinct (map fst r')"
    and "list_all (\<lambda>kv. is_number (snd kv)) r \<Longrightarrow> list_all (\<lambda>kv. is_number (snd kv)) r'"
    and "distinct (map fst r) \<Longrightarrow> rsvp_sum r' = rsvp_sum r + d"
  shows "balanced it'"
  using assms by (simp add: balanced_def)

lemma invite_update_delta:
  assumes "apply_update it
            [(Top ''attendees'', Plus (Path (Top ''attendees'')) (Value (N 1))),
             (Nested ''origin'' origin,
                Plus (If_not_exists (Nested ''origin'' origin) (Value (N 0))) (Value (N 1))),
             (Nested ''prodid'' prodid,
                Plus (If_not_exists (Nested ''prodid'' prodid) (Value (N 0))) (Value (N 1))),
             (Nested ''rsvp'' partstat,
                Plus (Path (Nested ''rsvp'' partstat)) (Value (N 1)))] = Some it'"
    and a: "map_of it ''attendees'' = Some (N a)"
    and r: "map_of it ''rsvp'' = Some (M r)"
  shows "\<exists>x. map_of r partstat = Some (N x)
    \<and> map_of it' ''attendees'' = Some (N (a + 1))
    \<and> map_of it' ''rsvp'' = Some (M (AList.update partstat (N (x + 1)) r))"
proof -
  from assms(1) obtain x vo vp mo mp where x: "map_of r partstat = Some (N x)"
    and it': "it' = AList.update ''rsvp'' (M (AList.update partstat (N (x + 1)) r))
                (AList.update ''prodid'' (M (AList.update prodid vp mp))
                  (AList.update ''origin'' (M (AList.update origin vo mo))
                    (AList.update ''attendees'' (N (a + 1)) it)))"
    using a r
    by (auto simp add: apply_update_def apply_sets_Cons_Some plus_Some get_nested_Some
        set_top_Some set_nested_Some update_conv'
        simp del: apply_sets.simps(2) eval_setvalue.simps set_path.simps get_path.simps(2)
          eval_operand.simps(3)
        split: if_splits)
  show ?thesis
    using x it' by (simp add: update_conv')
qed

lemma shared_update_delta:
  assumes "apply_update it
              [(Nested ''rsvp'' partstat,
                  Plus (Path (Nested ''rsvp'' partstat)) (Value (N 1))),
               (Top ''attendees'', Plus (Path (Top ''attendees'')) (Value (N 1))),
               (Nested ''origin'' ''shared'',
                  Plus (If_not_exists (Nested ''origin'' ''shared'') (Value (N 0))) (Value (N 1))),
               (Nested ''prodid'' prodid,
                  Plus (If_not_exists (Nested ''prodid'' prodid) (Value (N 0))) (Value (N 1)))] = Some it'"
    and a: "map_of it ''attendees'' = Some (N a)"
    and r: "map_of it ''rsvp'' = Some (M r)"
  shows "\<exists>x. map_of r partstat = Some (N x)
    \<and> map_of it' ''attendees'' = Some (N (a + 1))
    \<and> map_of it' ''rsvp'' = Some (M (AList.update partstat (N (x + 1)) r))"
proof -
  from assms(1) obtain x vo vp mo mp where x: "map_of r partstat = Some (N x)"
    and it': "it' = AList.update ''prodid'' (M (AList.update prodid vp mp))
                (AList.update ''origin'' (M (AList.update ''shared'' vo mo))
                  (AList.update ''attendees'' (N (a + 1))
                    (AList.update ''rsvp'' (M (AList.update partstat (N (x + 1)) r)) it)))"
    using a r
    by (auto simp add: apply_update_def apply_sets_Cons_Some plus_Some get_nested_Some
        set_top_Some set_nested_Some
        simp del: apply_sets.simps(2) eval_setvalue.simps set_path.simps get_path.simps(2)
          eval_operand.simps(3)
        split: if_splits)
  show ?thesis
    using x it' by (simp add: update_conv')
qed

lemma move_update_delta:
  assumes "apply_update it
           [(Nested ''rsvp'' new, Plus (Path (Nested ''rsvp'' new)) (Value (N 1))),
            (Nested ''rsvp'' previous, Minus (Path (Nested ''rsvp'' previous)) (Value (N 1)))] = Some it'"
    and r: "map_of it ''rsvp'' = Some (M r)"
  shows "\<exists>x y. new \<noteq> previous \<and> map_of r new = Some (N x) \<and> map_of r previous = Some (N y)
    \<and> map_of it' ''attendees'' = map_of it ''attendees''
    \<and> map_of it' ''rsvp''
        = Some (M (AList.update previous (N (y - 1)) (AList.update new (N (x + 1)) r)))"
proof -
  from assms(1) obtain x y where x: "map_of r new = Some (N x)"
    and y: "map_of r previous = Some (N y)" and neq: "new \<noteq> previous"
    and it': "it' = AList.update ''rsvp''
                (M (AList.update previous (N (y - 1)) (AList.update new (N (x + 1)) r))) it"
    using r
    by (auto simp add: apply_update_def apply_sets_Cons_Some plus_Some minus_Some get_nested_Some
        set_nested_Some update_conv'
        simp del: apply_sets.simps(2) eval_setvalue.simps set_path.simps get_path.simps(2)
        split: if_splits)
  show ?thesis
    using x y neq it' by (simp add: update_conv')
qed

lemma bucket_plus_one_balanced:
  assumes "balanced it"
    and "map_of it ''attendees'' = Some (N a)"
    and "map_of it ''rsvp'' = Some (M r)"
    and "map_of r partstat = Some (N x)"
    and "map_of it' ''attendees'' = Some (N (a + 1))"
    and "map_of it' ''rsvp'' = Some (M (AList.update partstat (N (x + 1)) r))"
  shows "balanced it'"
  using assms(1,3,2,5,6)
proof (rule balanced_step)
  show "distinct (map fst r) \<Longrightarrow> distinct (map fst (AList.update partstat (N (x + 1)) r))"
    by (rule distinct_update)
  show "list_all (\<lambda>kv. is_number (snd kv)) r \<Longrightarrow>
        list_all (\<lambda>kv. is_number (snd kv)) (AList.update partstat (N (x + 1)) r)"
    by (simp add: numbers_update)
  show "distinct (map fst r) \<Longrightarrow> rsvp_sum (AList.update partstat (N (x + 1)) r) = rsvp_sum r + 1"
    using assms(4) by (simp add: rsvp_sum_update)
qed

lemma invite_update_balanced:
  assumes "apply_update it
            [(Top ''attendees'', Plus (Path (Top ''attendees'')) (Value (N 1))),
             (Nested ''origin'' origin,
                Plus (If_not_exists (Nested ''origin'' origin) (Value (N 0))) (Value (N 1))),
             (Nested ''prodid'' prodid,
                Plus (If_not_exists (Nested ''prodid'' prodid) (Value (N 0))) (Value (N 1))),
             (Nested ''rsvp'' partstat,
                Plus (Path (Nested ''rsvp'' partstat)) (Value (N 1)))] = Some it'"
    and "balanced it"
  shows "balanced it'"
proof -
  obtain a r where a: "map_of it ''attendees'' = Some (N a)" and r: "map_of it ''rsvp'' = Some (M r)"
    using assms(2) by (rule balancedE)
  from invite_update_delta [OF assms(1) a r] obtain x where "map_of r partstat = Some (N x)"
    "map_of it' ''attendees'' = Some (N (a + 1))"
    "map_of it' ''rsvp'' = Some (M (AList.update partstat (N (x + 1)) r))"
    by blast
  with assms(2) a r show ?thesis
    by (rule bucket_plus_one_balanced)
qed

lemma shared_update_balanced:
  assumes "apply_update it
              [(Nested ''rsvp'' partstat,
                  Plus (Path (Nested ''rsvp'' partstat)) (Value (N 1))),
               (Top ''attendees'', Plus (Path (Top ''attendees'')) (Value (N 1))),
               (Nested ''origin'' ''shared'',
                  Plus (If_not_exists (Nested ''origin'' ''shared'') (Value (N 0))) (Value (N 1))),
               (Nested ''prodid'' prodid,
                  Plus (If_not_exists (Nested ''prodid'' prodid) (Value (N 0))) (Value (N 1)))] = Some it'"
    and "balanced it"
  shows "balanced it'"
proof -
  obtain a r where a: "map_of it ''attendees'' = Some (N a)" and r: "map_of it ''rsvp'' = Some (M r)"
    using assms(2) by (rule balancedE)
  from shared_update_delta [OF assms(1) a r] obtain x where "map_of r partstat = Some (N x)"
    "map_of it' ''attendees'' = Some (N (a + 1))"
    "map_of it' ''rsvp'' = Some (M (AList.update partstat (N (x + 1)) r))"
    by blast
  with assms(2) a r show ?thesis
    by (rule bucket_plus_one_balanced)
qed

lemma move_update_balanced:
  assumes "apply_update it
           [(Nested ''rsvp'' new, Plus (Path (Nested ''rsvp'' new)) (Value (N 1))),
            (Nested ''rsvp'' previous, Minus (Path (Nested ''rsvp'' previous)) (Value (N 1)))] = Some it'"
    and "balanced it"
  shows "balanced it'"
proof -
  obtain a r where a: "map_of it ''attendees'' = Some (N a)" and r: "map_of it ''rsvp'' = Some (M r)"
    using assms(2) by (rule balancedE)
  from move_update_delta [OF assms(1) r] obtain x y where x: "map_of r new = Some (N x)"
    and y: "map_of r previous = Some (N y)" and neq: "new \<noteq> previous"
    and a0: "map_of it' ''attendees'' = map_of it ''attendees''"
    and r': "map_of it' ''rsvp''
             = Some (M (AList.update previous (N (y - 1)) (AList.update new (N (x + 1)) r)))"
    by blast
  have a': "map_of it' ''attendees'' = Some (N (a + 0))"
    using a0 a by simp
  show ?thesis
    using assms(2) r a a' r'
  proof (rule balanced_step)
    show "distinct (map fst r) \<Longrightarrow>
          distinct (map fst (AList.update previous (N (y - 1)) (AList.update new (N (x + 1)) r)))"
      by (simp add: distinct_update)
    show "list_all (\<lambda>kv. is_number (snd kv)) r \<Longrightarrow>
          list_all (\<lambda>kv. is_number (snd kv))
            (AList.update previous (N (y - 1)) (AList.update new (N (x + 1)) r))"
      by (simp add: numbers_update)
    show "distinct (map fst r) \<Longrightarrow>
          rsvp_sum (AList.update previous (N (y - 1)) (AList.update new (N (x + 1)) r))
          = rsvp_sum r + 0"
      using x y neq by (simp add: rsvp_sum_update distinct_update update_conv')
  qed
qed

lemma other_write_keeps_balance:
  assumes "write_key i = Some k0" and "\<not> statistics_key k0"
  shows "keeps_balance i"
  unfolding keeps_balance_def
proof (intro allI impI)
  fix t t' k
  assume k: "statistics_key k" and w: "apply_write t i = Some t'" and b: "balanced_at t k"
  have "k \<noteq> k0"
    using assms(2) k by auto
  then have "t' k = t k"
    using apply_write_other_key [OF w assms(1)] by simp
  then show "balanced_at t' k"
    using b by (simp add: balanced_at_def)
qed

lemma update_keeps_balance:
  assumes "\<And>it it'. apply_update it acts = Some it' \<Longrightarrow> balanced it \<Longrightarrow> balanced it'"
  shows "keeps_balance (Update k0 acts None)"
  unfolding keeps_balance_def
proof (intro allI impI)
  fix t t' k
  assume k: "statistics_key k" and w: "apply_write t (Update k0 acts None) = Some t'"
    and b: "balanced_at t k"
  show "balanced_at t' k"
  proof (cases "k = k0")
    case True
    then show ?thesis
      using w b assms by (auto simp add: balanced_at_def split: option.splits if_splits)
  next
    case False
    then show ?thesis
      using b apply_write_other_key [OF w, of k0 k] by (simp add: balanced_at_def)
  qed
qed

lemma apply_writes_keep_balance:
  assumes "list_all keeps_balance items"
    and "apply_writes tbl items = Some tbl'"
    and "statistics_key k"
    and "balanced_at tbl k"
  shows "balanced_at tbl' k"
  using assms
proof (induction items arbitrary: tbl)
  case Nil
  then show ?case by simp
next
  case (Cons i items)
  from Cons.prems(2) obtain tbl1 where step: "apply_write tbl i = Some tbl1"
    and rest: "apply_writes tbl1 items = Some tbl'"
    by (auto split: option.splits)
  have "keeps_balance i"
    using Cons.prems(1) by simp
  then have "balanced_at tbl1 k"
    using Cons.prems(3,4) step unfolding keeps_balance_def by blast
  then show ?case
    using Cons.IH [OF _ rest Cons.prems(3)] Cons.prems(1) by simp
qed

lemma attendee_record_keeps_balance:
  assumes "get_attendee_record_for request mailto w = (Inr i, w1)"
  shows "w1 = w \<and> keeps_balance i"
  using assms
  by (auto simp add: get_attendee_record_for_def inversion key_of_def statistics_key_def
      intro!: other_write_keeps_balance)

lemma invite_limit_keeps_balance:
  assumes "get_event_invite_limit_record_update_for request = Inr i"
  shows "keeps_balance i"
  using assms
  by (auto simp add: get_event_invite_limit_record_update_for_def inversion statistics_key_def
      intro!: other_write_keeps_balance)

lemma invite_statistics_keeps_balance:
  assumes "get_statistics_record_update_for_invite primary_key sortkey request = Inr i"
  shows "keeps_balance i"
proof -
  from assms obtain origin prodid partstat where
    "i = Update (primary_key, sortkey)
            [(Top ''attendees'', Plus (Path (Top ''attendees'')) (Value (N 1))),
             (Nested ''origin'' origin,
                Plus (If_not_exists (Nested ''origin'' origin) (Value (N 0))) (Value (N 1))),
             (Nested ''prodid'' prodid,
                Plus (If_not_exists (Nested ''prodid'' prodid) (Value (N 0))) (Value (N 1))),
             (Nested ''rsvp'' partstat,
                Plus (Path (Nested ''rsvp'' partstat)) (Value (N 1)))]
            None"
    by (auto simp add: get_statistics_record_update_for_invite_def inversion)
  then show ?thesis
    by (simp only:) (rule update_keeps_balance, rule invite_update_balanced)
qed

lemma five_writes_keep_balance:
  assumes "statistics_key k" and "balanced_at tbl k"
  shows "\<forall>a b c d e tbl'. keeps_balance a \<longrightarrow> keeps_balance b \<longrightarrow> keeps_balance c
           \<longrightarrow> keeps_balance d \<longrightarrow> keeps_balance e
           \<longrightarrow> apply_writes tbl [a, b, c, d, e] = Some tbl' \<longrightarrow> balanced_at tbl' k"
proof (intro allI impI)
  fix a b c d e tbl'
  assume "keeps_balance a" "keeps_balance b" "keeps_balance c" "keeps_balance d"
    "keeps_balance e" and w: "apply_writes tbl [a, b, c, d, e] = Some tbl'"
  then have "list_all keeps_balance [a, b, c, d, e]"
    by simp
  then show "balanced_at tbl' k"
    using w assms by (rule apply_writes_keep_balance)
qed

lemma four_writes_keep_balance:
  assumes "statistics_key k" and "balanced_at tbl k"
  shows "\<forall>a b c d tbl'. keeps_balance a \<longrightarrow> keeps_balance b \<longrightarrow> keeps_balance c
           \<longrightarrow> keeps_balance d
           \<longrightarrow> apply_writes tbl [a, b, c, d] = Some tbl' \<longrightarrow> balanced_at tbl' k"
proof (intro allI impI)
  fix a b c d tbl'
  assume "keeps_balance a" "keeps_balance b" "keeps_balance c" "keeps_balance d"
    and w: "apply_writes tbl [a, b, c, d] = Some tbl'"
  then have "list_all keeps_balance [a, b, c, d]"
    by simp
  then show "balanced_at tbl' k"
    using w assms by (rule apply_writes_keep_balance)
qed

lemma invite_keeps_balance:
  assumes "create_record_of_attendee invite w = (Inr u, w')"
    and "statistics_key k"
    and "balanced_at (table w) k"
  shows "balanced_at (table w') k"
  using assms(1) five_writes_keep_balance [OF assms(2,3)]
  by (auto simp add: create_record_of_attendee_def inversion
      simp del: apply_writes.simps
      dest!: transact_Inr attendee_record_keeps_balance invite_limit_keeps_balance
        invite_statistics_keeps_balance)

lemma attendee_update_keeps_balance:
  assumes "get_attendee_update_record_for event_reply w = (Inr i, w1)"
  shows "w1 = w \<and> keeps_balance i"
  using assms
  by (auto simp add: get_attendee_update_record_for_def inversion statistics_key_def
      intro!: other_write_keeps_balance)

lemma shared_attendee_keeps_balance:
  assumes "get_shared_attendee_record_for event_reply w = (Inr i, w1)"
  shows "w1 = w \<and> keeps_balance i"
  using assms
  by (auto simp add: get_shared_attendee_record_for_def get_organizer_for_def inversion
      key_of_def statistics_key_def
      intro!: other_write_keeps_balance)

lemma reply_statistics_keeps_balance:
  assumes "get_statistics_record_update_for_reply event_reply primary_key sortkey previous shared
           = Inr i"
  shows "keeps_balance i"
proof (cases shared)
  case True
  with assms obtain partstat prodid where
    "i = Update (primary_key, sortkey)
              [(Nested ''rsvp'' partstat,
                  Plus (Path (Nested ''rsvp'' partstat)) (Value (N 1))),
               (Top ''attendees'', Plus (Path (Top ''attendees'')) (Value (N 1))),
               (Nested ''origin'' ''shared'',
                  Plus (If_not_exists (Nested ''origin'' ''shared'') (Value (N 0))) (Value (N 1))),
               (Nested ''prodid'' prodid,
                  Plus (If_not_exists (Nested ''prodid'' prodid) (Value (N 0))) (Value (N 1)))]
              None"
    by (auto simp add: get_statistics_record_update_for_reply_def inversion)
  then show ?thesis
    by (simp only:) (rule update_keeps_balance, rule shared_update_balanced)
next
  case False
  with assms obtain new prev where
    "i = Update (primary_key, sortkey)
              [(Nested ''rsvp'' new, Plus (Path (Nested ''rsvp'' new)) (Value (N 1))),
               (Nested ''rsvp'' prev, Minus (Path (Nested ''rsvp'' prev)) (Value (N 1)))]
              None"
    by (auto simp add: get_statistics_record_update_for_reply_def inversion)
  then show ?thesis
    by (simp only:) (rule update_keeps_balance, rule move_update_balanced)
qed

lemma submit_updated_keeps_balance:
  assumes "submit_updated_event_attend_record_for event_reply previous w = (Inr u, w')"
    and "statistics_key k"
    and "balanced_at (table w) k"
  shows "balanced_at (table w') k"
  using assms(1) four_writes_keep_balance [OF assms(2,3)]
  by (auto simp add: submit_updated_event_attend_record_for_def get_organizer_for_def inversion
      simp del: apply_writes.simps
      dest!: transact_Inr attendee_update_keeps_balance reply_statistics_keeps_balance)

lemma submit_shared_keeps_balance:
  assumes "submit_shared_event_attend_record_for event_reply w = (Inr u, w')"
    and "statistics_key k"
    and "balanced_at (table w) k"
  shows "balanced_at (table w') k"
  using assms(1) four_writes_keep_balance [OF assms(2,3)]
  by (auto simp add: submit_shared_event_attend_record_for_def get_organizer_for_def inversion
      simp del: apply_writes.simps
      dest!: transact_Inr shared_attendee_keeps_balance reply_statistics_keeps_balance)

lemma reply_keeps_balance:
  assumes "update_event_attendee_record_with event_reply w = (Inr u, w')"
    and "statistics_key k"
    and "balanced_at (table w) k"
  shows "balanced_at (table w') k"
  using assms
  by (auto simp add: update_event_attendee_record_with_def get_current_attendee_record_for_def
      inversion
      split: if_splits
      dest: submit_updated_keeps_balance submit_shared_keeps_balance)

lemma seed_balanced:
  assumes "get_statistics_record_for request = Inr seed"
  shows "balanced seed \<and> map_of seed ''attendees'' = Some (N 0)
    \<and> map_of seed ''rsvp'' = Some (M [(''accepted'', N 0), (''declined'', N 0),
                                       (''noaction'', N 0), (''tentative'', N 0)])"
  using assms
  by (auto simp add: get_statistics_record_for_def inversion balanced_def rsvp_sum_def)

section \<open>What the operations write\<close>

lemma cancel_event_effect:
  assumes "map_of event ''uid'' = Some uid"
    and "map_of event ''sequence'' = Some (N n)"
    and "table w (''event#'' @ py_str uid, ''event#'' @ py_str uid) = Some stored"
  shows "cancel_event event w =
    (Inr (AList.update ''sequence'' (N (n + 1))
           (AList.update ''last_modified'' (N (utcnow w))
             (AList.update ''dtstamp'' (N (utcnow w))
               (AList.update ''status'' (S ''cancelled'')
                 (AList.update ''method'' (S ''cancel'') event))))),
     w\<lparr>table := (table w)((''event#'' @ py_str uid, ''event#'' @ py_str uid) \<mapsto>
        AList.update ''sequence'' (N (n + 1))
          (AList.update ''status'' (S ''cancelled'')
            (AList.update ''method'' (S ''cancel'')
              (AList.update ''last_modified'' (N (utcnow w))
                (AList.update ''dtstamp'' (N (utcnow w)) stored)))))\<rparr>)"
  using assms
  by (simp add: cancel_event_def io_defs Let_def update_conv' update_item_def apply_update_def)





lemma rsvp_move_update:
  assumes "map_of it ''rsvp'' = Some (M r)"
    and "map_of r new = Some (N x)"
    and "map_of r previous = Some (N y)"
    and "new \<noteq> previous"
  shows "apply_update it
           [(Nested ''rsvp'' new, Plus (Path (Nested ''rsvp'' new)) (Value (N 1))),
            (Nested ''rsvp'' previous, Minus (Path (Nested ''rsvp'' previous)) (Value (N 1)))]
         = Some (AList.update ''rsvp''
                   (M (AList.update previous (N (y - 1)) (AList.update new (N (x + 1)) r))) it)"
  using assms by (simp add: apply_update_def update_conv')

lemma attendee_reply_update:
  assumes "map_of it ''history'' = Some (L history)"
  shows "apply_update it
           [(Top ''created'', Operand (Value created)),
            (Top ''prodid'', Operand (Value prodid)),
            (Top ''status'', Operand (Value status)),
            (Top ''history'', Operand (List_append (Path (Top ''history'')) (Value (L entry))))]
         = Some (AList.update ''history'' (L (history @ entry))
                  (AList.update ''status'' status
                    (AList.update ''prodid'' prodid
                      (AList.update ''created'' created it))))"
  using assms by (simp add: apply_update_def)

lemma statistics_update_for_changed_reply:
  assumes "map_of event_reply ''partstat'' = Some (S new)"
  shows "get_statistics_record_update_for_reply event_reply primary_key sortkey (S previous) False
         = Inr (Update (primary_key, sortkey)
              [(Nested ''rsvp'' new, Plus (Path (Nested ''rsvp'' new)) (Value (N 1))),
               (Nested ''rsvp'' previous, Minus (Path (Nested ''rsvp'' previous)) (Value (N 1)))]
              None)"
  using assms by (simp add: get_statistics_record_update_for_reply_def)

lemma attendee_update_record:
  assumes "map_of event_reply ''uid'' = Some uid"
    and "map_of event_reply ''attendee'' = Some attendee"
    and "map_of event_reply ''partstat'' = Some (S new)"
    and "map_of event_reply ''prodid'' = Some (S prodid)"
  shows "get_attendee_update_record_for event_reply w =
     (Inr (Update (''event#'' @ py_str uid, ''attendee#'' @ py_str attendee)
              [(Top ''created'', Operand (Value (N (utcnow w)))),
               (Top ''prodid'', Operand (Value (S prodid))),
               (Top ''status'', Operand (Value (S new))),
               (Top ''history'',
                  Operand (List_append (Path (Top ''history''))
                    (Value (L [L [S new, S (str_int (utcnow w)), S prodid]]))))]
              (Some (And (Attribute_exists (Top ''pk'')) (Attribute_exists (Top ''sk''))))), w)"
  using assms by (simp add: get_attendee_update_record_for_def io_defs)

lemma submit_updated_effect:
  assumes "map_of event_reply ''uid'' = Some uid"
    and "map_of event_reply ''attendee'' = Some attendee"
    and "map_of event_reply ''partstat'' = Some (S new)"
    and "map_of event_reply ''prodid'' = Some (S prodid)"
    and "table w (''event#'' @ py_str uid, ''attendee#'' @ py_str attendee) = Some attendee_record"
    and "map_of attendee_record ''pk'' = Some pk"
    and "map_of attendee_record ''sk'' = Some sk"
    and "map_of attendee_record ''history'' = Some (L history)"
    and "new \<noteq> previous"
    and "table w (''event#'' @ py_str uid, ''event#'' @ py_str uid) = Some event"
    and "map_of event ''mailto'' = Some organizer"
    and "table w (''event#'' @ py_str uid, ''event_statistics#'' @ py_str uid) = Some es"
    and "map_of es ''rsvp'' = Some (M er)"
    and "map_of er new = Some (N ex)" and "map_of er previous = Some (N ey)"
    and "table w (''organizer#'' @ py_str organizer, ''organizer_statistics#'' @ py_str organizer)
         = Some os"
    and "map_of os ''rsvp'' = Some (M orr)"
    and "map_of orr new = Some (N ox)" and "map_of orr previous = Some (N oy)"
    and "table w (''system#'', ''system_statistics#'') = Some ss"
    and "map_of ss ''rsvp'' = Some (M sr)"
    and "map_of sr new = Some (N sx)" and "map_of sr previous = Some (N sy)"
  shows "submit_updated_event_attend_record_for event_reply (S previous) w =
    (Inr (),
     w\<lparr>table := (table w)
       ((''event#'' @ py_str uid, ''attendee#'' @ py_str attendee) \<mapsto>
          AList.update ''history''
            (L (history @ [L [S new, S (str_int (utcnow w)), S prodid]]))
            (AList.update ''status'' (S new)
              (AList.update ''prodid'' (S prodid)
                (AList.update ''created'' (N (utcnow w)) attendee_record))),
        (''event#'' @ py_str uid, ''event_statistics#'' @ py_str uid) \<mapsto>
          AList.update ''rsvp''
            (M (AList.update previous (N (ey - 1)) (AList.update new (N (ex + 1)) er))) es,
        (''organizer#'' @ py_str organizer, ''organizer_statistics#'' @ py_str organizer) \<mapsto>
          AList.update ''rsvp''
            (M (AList.update previous (N (oy - 1)) (AList.update new (N (ox + 1)) orr))) os,
        (''system#'', ''system_statistics#'') \<mapsto>
          AList.update ''rsvp''
            (M (AList.update previous (N (sy - 1)) (AList.update new (N (sx + 1)) sr))) ss)\<rparr>)"
  using assms
  by (simp add: submit_updated_event_attend_record_for_def get_organizer_for_def io_defs
      attendee_update_record statistics_update_for_changed_reply transact_write_items_def
      rsvp_move_update attendee_reply_update holds_opt_def)


lemma rsvp_change_effect:
  assumes "map_of event_reply ''uid'' = Some uid"
    and "map_of event_reply ''attendee'' = Some attendee"
    and "map_of event_reply ''partstat'' = Some (S new)"
    and "map_of event_reply ''prodid'' = Some (S prodid)"
    and "table w (''event#'' @ py_str uid, ''attendee#'' @ py_str attendee) = Some attendee_record"
    and "map_of attendee_record ''pk'' = Some pk"
    and "map_of attendee_record ''sk'' = Some sk"
    and "map_of attendee_record ''status'' = Some (S previous)"
    and "map_of attendee_record ''history'' = Some (L history)"
    and "previous \<noteq> []" and "new \<noteq> previous"
    and "table w (''event#'' @ py_str uid, ''event#'' @ py_str uid) = Some event"
    and "map_of event ''mailto'' = Some organizer"
    and "table w (''event#'' @ py_str uid, ''event_statistics#'' @ py_str uid) = Some es"
    and "map_of es ''rsvp'' = Some (M er)"
    and "map_of er new = Some (N ex)" and "map_of er previous = Some (N ey)"
    and "table w (''organizer#'' @ py_str organizer, ''organizer_statistics#'' @ py_str organizer)
         = Some os"
    and "map_of os ''rsvp'' = Some (M orr)"
    and "map_of orr new = Some (N ox)" and "map_of orr previous = Some (N oy)"
    and "table w (''system#'', ''system_statistics#'') = Some ss"
    and "map_of ss ''rsvp'' = Some (M sr)"
    and "map_of sr new = Some (N sx)" and "map_of sr previous = Some (N sy)"
  shows "update_event_attendee_record_with event_reply w =
    (Inr (),
     w\<lparr>table := (table w)
       ((''event#'' @ py_str uid, ''attendee#'' @ py_str attendee) \<mapsto>
          AList.update ''history''
            (L (history @ [L [S new, S (str_int (utcnow w)), S prodid]]))
            (AList.update ''status'' (S new)
              (AList.update ''prodid'' (S prodid)
                (AList.update ''created'' (N (utcnow w)) attendee_record))),
        (''event#'' @ py_str uid, ''event_statistics#'' @ py_str uid) \<mapsto>
          AList.update ''rsvp''
            (M (AList.update previous (N (ey - 1)) (AList.update new (N (ex + 1)) er))) es,
        (''organizer#'' @ py_str organizer, ''organizer_statistics#'' @ py_str organizer) \<mapsto>
          AList.update ''rsvp''
            (M (AList.update previous (N (oy - 1)) (AList.update new (N (ox + 1)) orr))) os,
        (''system#'', ''system_statistics#'') \<mapsto>
          AList.update ''rsvp''
            (M (AList.update previous (N (sy - 1)) (AList.update new (N (sx + 1)) sr))) ss)\<rparr>)"
proof -
  have guard: "get_current_attendee_record_for event_reply w = (Inr attendee_record, w)"
    using assms(1,2,5) by (simp add: get_current_attendee_record_for_def io_defs)
  show ?thesis
    using guard assms(3,8,10,11)
      submit_updated_effect [OF assms(1-7) assms(9) assms(11) assms(12-25)]
    by (simp add: update_event_attendee_record_with_def io_defs)
qed











section \<open>The concrete messages run\<close>

lemma example_invite_runs:
  "fst (create_record_of_attendee example_invite example_world) = Inr ()"
  by (simp add: create_record_of_attendee_def io_defs get_attendee_record_for_def
      get_event_invite_limit_record_update_for_def get_statistics_record_update_for_invite_def
      transact_write_items_def key_of_def holds_opt_def apply_update_def dict_get_or_def
      example_defs)

lemma example_reply_runs:
  "fst (update_event_attendee_record_with (example_reply ''accepted'') example_world) = Inr ()"
  by (simp add: update_event_attendee_record_with_def get_current_attendee_record_for_def
      submit_updated_event_attend_record_for_def get_organizer_for_def
      get_attendee_update_record_for_def get_statistics_record_update_for_reply_def io_defs
      transact_write_items_def key_of_def holds_opt_def apply_update_def dict_get_or_def
      example_defs)


section \<open>The claims\<close>

subsection \<open>C1: the statistics stay balanced\<close>

text \<open>
  C1. In every statistics scope (the record at a statistics key: event, organizer or
  system), the invariant \<^verbatim>\<open>sum(rsvp.values()) == attendees\<close> holds after a successful
  recording of an invite and after a successful recording of a reply whenever it held
  before. The statistics update of an invite adds one to \<^verbatim>\<open>attendees\<close> and to one
  \<^verbatim>\<open>rsvp\<close> bucket, that of a reply from a new attendee of shared origin does the same,
  that of a reply changing the status adds one to a bucket and takes one from another
  and leaves \<^verbatim>\<open>attendees\<close> alone; the statistics record of a new event is seeded with
  \<^verbatim>\<open>attendees = 0\<close> and the four buckets at zero.
\<close>

theorem statistics_stay_balanced:
  "(create_record_of_attendee invite w = (Inr (), w') \<longrightarrow> statistics_key k
      \<longrightarrow> balanced_at (table w) k \<longrightarrow> balanced_at (table w') k)
   \<and> (update_event_attendee_record_with event_reply w = (Inr (), w'') \<longrightarrow> statistics_key k
      \<longrightarrow> balanced_at (table w) k \<longrightarrow> balanced_at (table w'') k)
   \<and> (get_statistics_record_for staged_event = Inr seed
      \<longrightarrow> balanced seed \<and> map_of seed ''attendees'' = Some (N 0)
          \<and> map_of seed ''rsvp'' = Some (M [(''accepted'', N 0), (''declined'', N 0),
                                             (''noaction'', N 0), (''tentative'', N 0)]))
   \<and> (get_statistics_record_update_for_invite primary_key sortkey request
        = Inr (Update key acts c)
      \<longrightarrow> apply_update it acts = Some it' \<longrightarrow> map_of it ''attendees'' = Some (N a)
      \<longrightarrow> map_of it ''rsvp'' = Some (M r)
      \<longrightarrow> (\<exists>partstat x. map_of r partstat = Some (N x)
            \<and> map_of it' ''attendees'' = Some (N (a + 1))
            \<and> map_of it' ''rsvp'' = Some (M (AList.update partstat (N (x + 1)) r))))
   \<and> (get_statistics_record_update_for_reply event_reply primary_key sortkey NULL True
        = Inr (Update key acts c)
      \<longrightarrow> apply_update it acts = Some it' \<longrightarrow> map_of it ''attendees'' = Some (N a)
      \<longrightarrow> map_of it ''rsvp'' = Some (M r)
      \<longrightarrow> (\<exists>partstat x. map_of r partstat = Some (N x)
            \<and> map_of it' ''attendees'' = Some (N (a + 1))
            \<and> map_of it' ''rsvp'' = Some (M (AList.update partstat (N (x + 1)) r))))
   \<and> (get_statistics_record_update_for_reply event_reply primary_key sortkey previous_status False
        = Inr (Update key acts c)
      \<longrightarrow> apply_update it acts = Some it' \<longrightarrow> map_of it ''rsvp'' = Some (M r)
      \<longrightarrow> (\<exists>new previous x y. new \<noteq> previous
            \<and> map_of r new = Some (N x) \<and> map_of r previous = Some (N y)
            \<and> map_of it' ''attendees'' = map_of it ''attendees''
            \<and> map_of it' ''rsvp''
                = Some (M (AList.update previous (N (y - 1)) (AList.update new (N (x + 1)) r)))))"
proof (intro conjI impI)
  assume "create_record_of_attendee invite w = (Inr (), w')" "statistics_key k"
    "balanced_at (table w) k"
  then show "balanced_at (table w') k"
    by (rule invite_keeps_balance)
next
  assume "update_event_attendee_record_with event_reply w = (Inr (), w'')" "statistics_key k"
    "balanced_at (table w) k"
  then show "balanced_at (table w'') k"
    by (rule reply_keeps_balance)
next
  assume "get_statistics_record_for staged_event = Inr seed"
  then show "balanced seed" "map_of seed ''attendees'' = Some (N 0)"
    "map_of seed ''rsvp'' = Some (M [(''accepted'', N 0), (''declined'', N 0),
                                     (''noaction'', N 0), (''tentative'', N 0)])"
    using seed_balanced by blast+
next
  assume "get_statistics_record_update_for_invite primary_key sortkey request
          = Inr (Update key acts c)"
    and run: "apply_update it acts = Some it'"
    and a: "map_of it ''attendees'' = Some (N a)" and r: "map_of it ''rsvp'' = Some (M r)"
  then obtain origin prodid partstat where
    "acts = [(Top ''attendees'', Plus (Path (Top ''attendees'')) (Value (N 1))),
             (Nested ''origin'' origin,
                Plus (If_not_exists (Nested ''origin'' origin) (Value (N 0))) (Value (N 1))),
             (Nested ''prodid'' prodid,
                Plus (If_not_exists (Nested ''prodid'' prodid) (Value (N 0))) (Value (N 1))),
             (Nested ''rsvp'' partstat,
                Plus (Path (Nested ''rsvp'' partstat)) (Value (N 1)))]"
    by (auto simp add: get_statistics_record_update_for_invite_def inversion)
  with run show "\<exists>partstat x. map_of r partstat = Some (N x)
            \<and> map_of it' ''attendees'' = Some (N (a + 1))
            \<and> map_of it' ''rsvp'' = Some (M (AList.update partstat (N (x + 1)) r))"
    using invite_update_delta [OF _ a r] by blast
next
  assume "get_statistics_record_update_for_reply event_reply primary_key sortkey NULL True
          = Inr (Update key acts c)"
    and run: "apply_update it acts = Some it'"
    and a: "map_of it ''attendees'' = Some (N a)" and r: "map_of it ''rsvp'' = Some (M r)"
  then obtain prodid partstat where
    "acts = [(Nested ''rsvp'' partstat,
                  Plus (Path (Nested ''rsvp'' partstat)) (Value (N 1))),
               (Top ''attendees'', Plus (Path (Top ''attendees'')) (Value (N 1))),
               (Nested ''origin'' ''shared'',
                  Plus (If_not_exists (Nested ''origin'' ''shared'') (Value (N 0))) (Value (N 1))),
               (Nested ''prodid'' prodid,
                  Plus (If_not_exists (Nested ''prodid'' prodid) (Value (N 0))) (Value (N 1)))]"
    by (auto simp add: get_statistics_record_update_for_reply_def inversion)
  with run show "\<exists>partstat x. map_of r partstat = Some (N x)
            \<and> map_of it' ''attendees'' = Some (N (a + 1))
            \<and> map_of it' ''rsvp'' = Some (M (AList.update partstat (N (x + 1)) r))"
    using shared_update_delta [OF _ a r] by blast
next
  assume "get_statistics_record_update_for_reply event_reply primary_key sortkey
            previous_status False = Inr (Update key acts c)"
    and run: "apply_update it acts = Some it'"
    and r: "map_of it ''rsvp'' = Some (M r)"
  then obtain new previous where
    "acts = [(Nested ''rsvp'' new, Plus (Path (Nested ''rsvp'' new)) (Value (N 1))),
            (Nested ''rsvp'' previous, Minus (Path (Nested ''rsvp'' previous)) (Value (N 1)))]"
    by (auto simp add: get_statistics_record_update_for_reply_def inversion)
  with run show "\<exists>new previous x y. new \<noteq> previous
            \<and> map_of r new = Some (N x) \<and> map_of r previous = Some (N y)
            \<and> map_of it' ''attendees'' = map_of it ''attendees''
            \<and> map_of it' ''rsvp''
                = Some (M (AList.update previous (N (y - 1)) (AList.update new (N (x + 1)) r)))"
    using move_update_delta [OF _ r] by blast
qed

theorem statistics_stay_balanced_witness:
  "balanced_at (table example_world) (''event#E1'', ''event_statistics#E1'')
   \<and> balanced_at (table (snd (create_record_of_attendee example_invite example_world)))
        (''event#E1'', ''event_statistics#E1'')
   \<and> balanced_at (table (snd (update_event_attendee_record_with (example_reply ''accepted'')
                                 example_world)))
        (''event#E1'', ''event_statistics#E1'')"
proof -
  let ?k = "(''event#E1'', ''event_statistics#E1'')"
  have key: "statistics_key ?k"
    by (simp add: statistics_key_def)
  have before: "balanced_at (table example_world) ?k"
    by (simp add: balanced_at_def balanced_def rsvp_sum_def example_defs)
  have invite: "create_record_of_attendee example_invite example_world
      = (Inr (), snd (create_record_of_attendee example_invite example_world))"
    using example_invite_runs by (simp add: prod_eq_iff)
  have reply: "update_event_attendee_record_with (example_reply ''accepted'') example_world
      = (Inr (), snd (update_event_attendee_record_with (example_reply ''accepted'')
                        example_world))"
    using example_reply_runs by (simp add: prod_eq_iff)
  have "balanced_at (table (snd (create_record_of_attendee example_invite example_world))) ?k"
    using statistics_stay_balanced
      [of example_invite example_world
        "snd (create_record_of_attendee example_invite example_world)" ?k]
      invite key before
    by blast
  moreover have "balanced_at (table (snd (update_event_attendee_record_with
      (example_reply ''accepted'') example_world))) ?k"
    using statistics_stay_balanced
      [of _ example_world _ ?k "example_reply ''accepted''"
        "snd (update_event_attendee_record_with (example_reply ''accepted'') example_world)"]
      reply key before
    by blast
  ultimately show ?thesis
    using before by simp
qed

subsection \<open>C2: creating an event twice\<close>



subsection \<open>C3: a message whose update changes nothing stays in the queue\<close>

text \<open>
  C3. The claim is that a message whose processing raises no exception is deleted from
  the queue, also when the update resolves to nothing to do. In \<^verbatim>\<open>update_event\<close> the
  deletion stands inside the branch taken when a field differs: for the request that
  repeats the stored event, the handler reports the batch complete, counts no failure,
  and the receipt handle of the message is still in the queue.
\<close>

theorem noop_update_not_acknowledged:
  "lambda_handler_update [example_record (example_update ''Party'')] example_world
     = (Inr ''Complete'', example_world)
   \<and> receiptHandle (example_record (example_update ''Party'')) = Some ''h1''
   \<and> sqs example_world = [''h1'']"
proof -
  have "process_request_from_update (example_record (example_update ''Party'')) example_world
        = (Inr (), example_world)"
    by (simp add: process_request_from_update_def get_sqs_message_with_sns_notification_from_def
        get_event_uid_from_def get_event_from_def event_updated_def update_fields_def
        dict_get_def io_defs example_defs)
  then show ?thesis
    by (simp add: lambda_handler_update_def cleanup_all_def dict_get_def ret_def
        example_record_def example_world_def)
qed

subsection \<open>C4: an update that changes nothing\<close>

text \<open>
  C4. When the stored event and the incoming request agree on each of the eight compared
  fields, processing the update request returns without an exception and leaves the
  whole world as it was: no write to the table (so \<^verbatim>\<open>sequence\<close>, \<^verbatim>\<open>dtstamp\<close> and
  \<^verbatim>\<open>last_modified\<close> keep their values) and no notification.
\<close>

theorem noop_update_leaves_world:
  assumes "body record = Some request"
    and "map_of request ''original_uid'' = Some original_uid"
    and "table w (''original_event#'' @ py_str original_uid,
                  ''original_event#'' @ py_str original_uid) = Some lookup"
    and "map_of lookup ''uid'' = Some uid"
    and "table w (''event#'' @ py_str uid, ''event#'' @ py_str uid) = Some event"
    and "\<forall>val \<in> set update_fields. dict_get event val = dict_get request val"
  shows "process_request_from_update record w = (Inr (), w)"
proof -
  have "\<not> event_updated event request"
    using assms(6) by (simp add: event_updated_def list_ex_iff)
  then show ?thesis
    using assms(1-5)
    by (simp add: process_request_from_update_def get_sqs_message_with_sns_notification_from_def
        get_event_uid_from_def get_event_from_def io_defs)
qed

theorem noop_update_leaves_world_witness:
  "body (example_record (example_update ''Party'')) = Some (example_update ''Party'')
   \<and> map_of (example_update ''Party'') ''original_uid'' = Some (S ''X'')
   \<and> list_all (\<lambda>val. dict_get example_event val = dict_get (example_update ''Party'') val)
         update_fields
   \<and> process_request_from_update (example_record (example_update ''Party'')) example_world
       = (Inr (), example_world)"
proof -
  have h1: "body (example_record (example_update ''Party'')) = Some (example_update ''Party'')"
    by (simp add: example_record_def)
  have h2: "map_of (example_update ''Party'') ''original_uid'' = Some (S ''X'')"
    by (simp add: example_update_def)
  have h3: "table example_world (''original_event#'' @ py_str (S ''X''),
              ''original_event#'' @ py_str (S ''X''))
            = Some [(''pk'', S ''original_event#X''), (''sk'', S ''original_event#X''),
                    (''uid'', S ''E1''), (''mailto'', S ''a@x.com'')]"
    by (simp add: example_world_def example_table_def)
  have h4: "map_of [(''pk'', S ''original_event#X''), (''sk'', S ''original_event#X''),
                    (''uid'', S ''E1''), (''mailto'', S ''a@x.com'')] ''uid'' = Some (S ''E1'')"
    by simp
  have h5: "table example_world (''event#'' @ py_str (S ''E1''), ''event#'' @ py_str (S ''E1''))
            = Some example_event"
    by (simp add: example_world_def example_table_def)
  have h6: "\<forall>val \<in> set update_fields.
              dict_get example_event val = dict_get (example_update ''Party'') val"
    by (simp add: update_fields_def example_event_def example_update_def dict_get_def)
  show ?thesis
    using noop_update_leaves_world [OF h1 h2 h3 h4 h5 h6] h1 h2 h6
    by (simp add: list_all_iff)
qed

subsection \<open>C5: the record of an invite\<close>




subsection \<open>C6: from tentative to accepted\<close>

text \<open>
  C6. When the attendee record has the status tentative and the reply says accepted,
  recording the reply returns without a warning and commits one transaction in which,
  for each of the three statistics records, one update expression adds one to
  \<^verbatim>\<open>rsvp[accepted]\<close> and takes one from \<^verbatim>\<open>rsvp[tentative]\<close>; \<^verbatim>\<open>attendees\<close> and every
  other attribute and bucket of the record keep their values.
\<close>

theorem tentative_to_accepted:
  assumes "map_of event_reply ''uid'' = Some uid"
    and "map_of event_reply ''attendee'' = Some attendee"
    and "map_of event_reply ''partstat'' = Some (S ''accepted'')"
    and "map_of event_reply ''prodid'' = Some (S prodid)"
    and "table w (''event#'' @ py_str uid, ''attendee#'' @ py_str attendee) = Some attendee_record"
    and "map_of attendee_record ''pk'' = Some pk"
    and "map_of attendee_record ''sk'' = Some sk"
    and "map_of attendee_record ''status'' = Some (S ''tentative'')"
    and "map_of attendee_record ''history'' = Some (L history)"
    and "table w (''event#'' @ py_str uid, ''event#'' @ py_str uid) = Some event"
    and "map_of event ''mailto'' = Some organizer"
    and "table w (''event#'' @ py_str uid, ''event_statistics#'' @ py_str uid) = Some es"
    and "map_of es ''rsvp'' = Some (M er)"
    and "map_of er ''accepted'' = Some (N ex)"
    and "map_of er ''tentative'' = Some (N ey)"
    and "table w (''organizer#'' @ py_str organizer, ''organizer_statistics#'' @ py_str organizer)
         = Some os"
    and "map_of os ''rsvp'' = Some (M orr)"
    and "map_of orr ''accepted'' = Some (N ox)"
    and "map_of orr ''tentative'' = Some (N oy)"
    and "table w (''system#'', ''system_statistics#'') = Some ss"
    and "map_of ss ''rsvp'' = Some (M sr)"
    and "map_of sr ''accepted'' = Some (N sx)"
    and "map_of sr ''tentative'' = Some (N sy)"
    and "update_event_attendee_record_with event_reply w = (r, w')"
  shows "r = Inr ()
    \<and> warnings w' = warnings w
    \<and> (\<exists>es' er'. table w' (''event#'' @ py_str uid, ''event_statistics#'' @ py_str uid) = Some es'
          \<and> map_of es' = (map_of es)(''rsvp'' \<mapsto> M er')
          \<and> map_of es' ''attendees'' = map_of es ''attendees''
          \<and> map_of er' = (map_of er)(''accepted'' \<mapsto> N (ex + 1), ''tentative'' \<mapsto> N (ey - 1)))
    \<and> (\<exists>os' orr'. table w' (''organizer#'' @ py_str organizer, ''organizer_statistics#'' @ py_str organizer) = Some os'
          \<and> map_of os' = (map_of os)(''rsvp'' \<mapsto> M orr')
          \<and> map_of os' ''attendees'' = map_of os ''attendees''
          \<and> map_of orr' = (map_of orr)(''accepted'' \<mapsto> N (ox + 1), ''tentative'' \<mapsto> N (oy - 1)))
    \<and> (\<exists>ss' sr'. table w' (''system#'', ''system_statistics#'') = Some ss'
          \<and> map_of ss' = (map_of ss)(''rsvp'' \<mapsto> M sr')
          \<and> map_of ss' ''attendees'' = map_of ss ''attendees''
          \<and> map_of sr' = (map_of sr)(''accepted'' \<mapsto> N (sx + 1), ''tentative'' \<mapsto> N (sy - 1)))
    \<and> get_statistics_record_update_for_reply event_reply primary_key sortkey (S ''tentative'') False
        = Inr (Update (primary_key, sortkey)
                [(Nested ''rsvp'' ''accepted'',
                    Plus (Path (Nested ''rsvp'' ''accepted'')) (Value (N 1))),
                 (Nested ''rsvp'' ''tentative'',
                    Minus (Path (Nested ''rsvp'' ''tentative'')) (Value (N 1)))]
                None)"
proof -
  have neq: "''tentative'' \<noteq> []" "''accepted'' \<noteq> ''tentative''"
    by simp_all
  note effect = rsvp_change_effect [OF assms(1-9) neq assms(10-23)]
  have w': "w' = snd (update_event_attendee_record_with event_reply w)" and r: "r = Inr ()"
    using assms(24) effect by simp_all
  have expression: "get_statistics_record_update_for_reply event_reply primary_key sortkey
        (S ''tentative'') False
        = Inr (Update (primary_key, sortkey)
                [(Nested ''rsvp'' ''accepted'',
                    Plus (Path (Nested ''rsvp'' ''accepted'')) (Value (N 1))),
                 (Nested ''rsvp'' ''tentative'',
                    Minus (Path (Nested ''rsvp'' ''tentative'')) (Value (N 1)))]
                None)"
    using assms(3) by (rule statistics_update_for_changed_reply)
  have moved: "\<exists>m'. (map_of st)(''rsvp'' \<mapsto>
        M (AList.update ''tentative'' (N (y - 1)) (AList.update ''accepted'' (N (x + 1)) m)))
      = (map_of st)(''rsvp'' \<mapsto> M m')
      \<and> map_of m' = (map_of m)(''accepted'' \<mapsto> N (x + 1), ''tentative'' \<mapsto> N (y - 1))"
    for st :: item and m x y
    by (rule exI [of _ "AList.update ''tentative'' (N (y - 1))
                          (AList.update ''accepted'' (N (x + 1)) m)"])
       (simp add: update_conv')
  show ?thesis
    unfolding w' r effect expression
    by (simp add: update_conv' moved)
qed

theorem tentative_to_accepted_witness:
  "map_of example_attendee ''status'' = Some (S ''tentative'')
   \<and> map_of (example_reply ''accepted'') ''partstat'' = Some (S ''accepted'')
   \<and> fst (update_event_attendee_record_with (example_reply ''accepted'') example_world) = Inr ()
   \<and> (\<exists>ss' sr'. table (snd (update_event_attendee_record_with (example_reply ''accepted'')
                                 example_world)) (''system#'', ''system_statistics#'') = Some ss'
          \<and> map_of ss' ''rsvp'' = Some (M sr')
          \<and> map_of ss' ''attendees'' = Some (N 1)
          \<and> map_of sr' ''accepted'' = Some (N 1)
          \<and> map_of sr' ''tentative'' = Some (N 0))"
proof -
  let ?run = "update_event_attendee_record_with (example_reply ''accepted'') example_world"
  let ?rsvp = "[(''accepted'', N 0), (''declined'', N 0), (''noaction'', N 0),
                (''tentative'', N 1)]"
  have a: "map_of (example_reply ''accepted'') ''uid'' = Some (S ''E1'')"
    "map_of (example_reply ''accepted'') ''attendee'' = Some (S ''b@y.com'')"
    "map_of (example_reply ''accepted'') ''partstat'' = Some (S ''accepted'')"
    "map_of (example_reply ''accepted'') ''prodid'' = Some (S ''p2'')"
    "table example_world (''event#'' @ py_str (S ''E1''), ''attendee#'' @ py_str (S ''b@y.com''))
       = Some example_attendee"
    "map_of example_attendee ''pk'' = Some (S ''event#E1'')"
    "map_of example_attendee ''sk'' = Some (S ''attendee#b@y.com'')"
    "map_of example_attendee ''status'' = Some (S ''tentative'')"
    "map_of example_attendee ''history''
       = Some (L [L [S ''noaction'', N 1200, S ''-//31events//calendarsnack//en''],
                  L [S ''tentative'', S ''1500'', S ''p1'']])"
    "table example_world (''event#'' @ py_str (S ''E1''), ''event#'' @ py_str (S ''E1''))
       = Some example_event"
    "map_of example_event ''mailto'' = Some (S ''a@x.com'')"
    by (simp_all add: example_reply_def example_world_def example_table_def example_attendee_def
        example_event_def)
  have e: "table example_world
             (''event#'' @ py_str (S ''E1''), ''event_statistics#'' @ py_str (S ''E1''))
       = Some (example_statistics ''event#E1'' ''event_statistics#E1'')"
    "map_of (example_statistics ''event#E1'' ''event_statistics#E1'') ''rsvp'' = Some (M ?rsvp)"
    by (simp_all add: example_world_def example_table_def example_statistics_def)
  have o: "table example_world (''organizer#'' @ py_str (S ''a@x.com''),
             ''organizer_statistics#'' @ py_str (S ''a@x.com''))
       = Some (example_statistics ''organizer#a@x.com'' ''organizer_statistics#a@x.com'')"
    "map_of (example_statistics ''organizer#a@x.com'' ''organizer_statistics#a@x.com'')
       ''rsvp'' = Some (M ?rsvp)"
    by (simp_all add: example_world_def example_table_def example_statistics_def)
  have s: "table example_world (''system#'', ''system_statistics#'')
       = Some (example_statistics ''system#'' ''system_statistics#'')"
    "map_of (example_statistics ''system#'' ''system_statistics#'') ''rsvp'' = Some (M ?rsvp)"
    by (simp_all add: example_world_def example_table_def example_statistics_def)
  have c: "map_of ?rsvp ''accepted'' = Some (N 0)" "map_of ?rsvp ''tentative'' = Some (N 1)"
    by simp_all
  have run: "?run = (fst ?run, snd ?run)"
    by simp
  have attendees: "map_of (example_statistics ''system#'' ''system_statistics#'') ''attendees''
      = Some (N 1)"
    by (simp add: example_statistics_def)
  from tentative_to_accepted [OF a e c o c s c run] obtain ss' sr' where
    result: "fst ?run = Inr ()"
    and stored: "table (snd ?run) (''system#'', ''system_statistics#'') = Some ss'"
    and content: "map_of ss' = (map_of (example_statistics ''system#'' ''system_statistics#''))
                   (''rsvp'' \<mapsto> M sr')"
    and same: "map_of ss' ''attendees''
               = map_of (example_statistics ''system#'' ''system_statistics#'') ''attendees''"
    and buckets: "map_of sr' = (map_of ?rsvp)(''accepted'' \<mapsto> N (0 + 1),
                                              ''tentative'' \<mapsto> N (1 - 1))"
    by blast
  have "map_of ss' ''rsvp'' = Some (M sr')" "map_of ss' ''attendees'' = Some (N 1)"
    "map_of sr' ''accepted'' = Some (N 1)" "map_of sr' ''tentative'' = Some (N 0)"
    using content same attendees buckets by simp_all
  with result stored a(3,8) show ?thesis
    by blast
qed

subsection \<open>C7: a reply that repeats the stored status\<close>

text \<open>
  C7. When the attendee record exists and its status equals the status of the incoming
  reply, the reply is reported as already processed and nothing is written: the table
  (the record's status and history, every statistics counter), the notifications and
  the queue are as before; only the warning is logged.
\<close>

theorem duplicate_rsvp_no_write:
  assumes "map_of event_reply ''uid'' = Some uid"
    and "map_of event_reply ''attendee'' = Some attendee"
    and "map_of event_reply ''partstat'' = Some partstat"
    and "table w (''event#'' @ py_str uid, ''attendee#'' @ py_str attendee) = Some attendee_record"
    and "map_of attendee_record ''status'' = Some partstat"
    and "truthy partstat"
  shows "update_event_attendee_record_with event_reply w
         = (Inr (), w\<lparr>warnings := warnings w @ [''RSVP already processed'']\<rparr>)"
  using assms
  by (simp add: update_event_attendee_record_with_def get_current_attendee_record_for_def io_defs)

theorem duplicate_rsvp_no_write_witness:
  "map_of (example_reply ''tentative'') ''partstat'' = Some (S ''tentative'')
   \<and> map_of example_attendee ''status'' = Some (S ''tentative'')
   \<and> truthy (S ''tentative'')
   \<and> update_event_attendee_record_with (example_reply ''tentative'') example_world
       = (Inr (), example_world\<lparr>warnings := [''RSVP already processed'']\<rparr>)"
proof -
  have h1: "map_of (example_reply ''tentative'') ''uid'' = Some (S ''E1'')"
    and h2: "map_of (example_reply ''tentative'') ''attendee'' = Some (S ''b@y.com'')"
    and h3: "map_of (example_reply ''tentative'') ''partstat'' = Some (S ''tentative'')"
    by (simp_all add: example_reply_def)
  have h4: "table example_world (''event#'' @ py_str (S ''E1''),
              ''attendee#'' @ py_str (S ''b@y.com'')) = Some example_attendee"
    by (simp add: example_world_def example_table_def)
  have h5: "map_of example_attendee ''status'' = Some (S ''tentative'')"
    by (simp add: example_attendee_def)
  have h6: "truthy (S ''tentative'')"
    by simp
  have "warnings example_world = []"
    by (simp add: example_world_def)
  then show ?thesis
    using duplicate_rsvp_no_write [OF h1 h2 h3 h4 h5 h6] h3 h5 h6 by simp
qed

subsection \<open>C8: cancelling twice\<close>

text \<open>
  C8. The first cancel of an event that is not cancelled writes \<^verbatim>\<open>method = cancel\<close>,
  \<^verbatim>\<open>status = cancelled\<close>, the current time in \<^verbatim>\<open>dtstamp\<close> and \<^verbatim>\<open>last_modified\<close>, and
  \<^verbatim>\<open>sequence + 1\<close>, and publishes one cancellation. A second cancel of the same original
  identifier, at any later time, returns without an exception and leaves the table and
  the notifications as the first call left them.
\<close>

theorem cancel_twice:
  assumes "body record = Some request"
    and "map_of request ''original_uid'' = Some original_uid"
    and "table w (''original_event#'' @ py_str original_uid,
                  ''original_event#'' @ py_str original_uid) = Some lookup"
    and "map_of lookup ''uid'' = Some uid"
    and "table w (''event#'' @ py_str uid, ''event#'' @ py_str uid) = Some event"
    and "map_of event ''uid'' = Some uid"
    and "map_of event ''sequence'' = Some (N n)"
    and "map_of event ''status'' = Some status"
    and "status \<noteq> S ''cancelled''"
    and "body record' = Some request'"
    and "map_of request' ''original_uid'' = Some original_uid"
    and "process_request_from_cancel record w = (r1, w1)"
    and "process_request_from_cancel record' (w1\<lparr>utcnow := later\<rparr>) = (r2, w2)"
  shows "r1 = Inr ()
    \<and> (\<exists>cancelled.
          table w1 = (table w)((''event#'' @ py_str uid, ''event#'' @ py_str uid) \<mapsto> cancelled)
          \<and> map_of cancelled =
              (map_of event)(''dtstamp'' \<mapsto> N (utcnow w), ''last_modified'' \<mapsto> N (utcnow w),
                 ''method'' \<mapsto> S ''cancel'', ''status'' \<mapsto> S ''cancelled'',
                 ''sequence'' \<mapsto> N (n + 1)))
    \<and> (\<exists>notification. sns w1 = sns w @ [(EVENT_CANCELLED, notification)])
    \<and> r2 = Inr ()
    \<and> table w2 = table w1
    \<and> sns w2 = sns w1"
proof -
  let ?k = "(''event#'' @ py_str uid, ''event#'' @ py_str uid)"
  let ?o = "(''original_event#'' @ py_str original_uid, ''original_event#'' @ py_str original_uid)"
  let ?cancelled = "AList.update ''sequence'' (N (n + 1))
          (AList.update ''status'' (S ''cancelled'')
            (AList.update ''method'' (S ''cancel'')
              (AList.update ''last_modified'' (N (utcnow w))
                (AList.update ''dtstamp'' (N (utcnow w)) event))))"
  have not_cancelled: "event_is_not_cancelled event = Inr True"
    using assms(8,9) by (simp add: event_is_not_cancelled_def)
  have first: "r1 = Inr () \<and> table w1 = (table w)(?k \<mapsto> ?cancelled)
      \<and> (\<exists>notification. sns w1 = sns w @ [(EVENT_CANCELLED, notification)])"
    using assms(1-5,12) not_cancelled cancel_event_effect [OF assms(6,7,5)]
    by (auto simp add: process_request_from_cancel_def process_defs io_defs
        send_notification_of_cancelled_def)
  have tbl1: "table w1 = (table w)(?k \<mapsto> ?cancelled)"
    using first by simp
  have lookup1: "table (w1\<lparr>utcnow := later\<rparr>) ?o = Some lookup"
    using assms(3) tbl1 by simp
  have event1: "table (w1\<lparr>utcnow := later\<rparr>) ?k = Some ?cancelled"
    using tbl1 by simp
  have cancelled: "event_is_not_cancelled ?cancelled = Inr False"
    by (simp add: event_is_not_cancelled_def update_conv')
  have second: "r2 = Inr () \<and> table w2 = table w1 \<and> sns w2 = sns w1"
    using assms(10,11,13) assms(4) lookup1 event1 cancelled
    by (auto simp add: process_request_from_cancel_def process_defs io_defs)
  have "map_of ?cancelled =
      (map_of event)(''dtstamp'' \<mapsto> N (utcnow w), ''last_modified'' \<mapsto> N (utcnow w),
         ''method'' \<mapsto> S ''cancel'', ''status'' \<mapsto> S ''cancelled'',
         ''sequence'' \<mapsto> N (n + 1))"
    by (simp add: update_conv')
  with first second tbl1 show ?thesis
    by blast
qed

theorem cancel_twice_witness:
  "map_of example_event ''status'' = Some (S ''confirmed'')
   \<and> fst (process_request_from_cancel (example_record (example_update ''Party'')) example_world)
       = Inr ()
   \<and> table (snd (process_request_from_cancel (example_record (example_update ''Gala''))
        ((snd (process_request_from_cancel (example_record (example_update ''Party''))
                 example_world))\<lparr>utcnow := 3000\<rparr>)))
       = table (snd (process_request_from_cancel (example_record (example_update ''Party''))
                       example_world))
   \<and> sns (snd (process_request_from_cancel (example_record (example_update ''Gala''))
        ((snd (process_request_from_cancel (example_record (example_update ''Party''))
                 example_world))\<lparr>utcnow := 3000\<rparr>)))
       = sns (snd (process_request_from_cancel (example_record (example_update ''Party''))
                     example_world))"
proof -
  let ?first = "process_request_from_cancel (example_record (example_update ''Party''))
                  example_world"
  let ?second = "process_request_from_cancel (example_record (example_update ''Gala''))
                   ((snd ?first)\<lparr>utcnow := 3000\<rparr>)"
  have h: "body (example_record (example_update ''Party'')) = Some (example_update ''Party'')"
    "map_of (example_update ''Party'') ''original_uid'' = Some (S ''X'')"
    "table example_world (''original_event#'' @ py_str (S ''X''),
              ''original_event#'' @ py_str (S ''X''))
            = Some [(''pk'', S ''original_event#X''), (''sk'', S ''original_event#X''),
                    (''uid'', S ''E1''), (''mailto'', S ''a@x.com'')]"
    "map_of [(''pk'', S ''original_event#X''), (''sk'', S ''original_event#X''),
             (''uid'', S ''E1''), (''mailto'', S ''a@x.com'')] ''uid'' = Some (S ''E1'')"
    "table example_world (''event#'' @ py_str (S ''E1''), ''event#'' @ py_str (S ''E1''))
       = Some example_event"
    "map_of example_event ''uid'' = Some (S ''E1'')"
    "map_of example_event ''sequence'' = Some (N 0)"
    "map_of example_event ''status'' = Some (S ''confirmed'')"
    "S ''confirmed'' \<noteq> S ''cancelled''"
    "body (example_record (example_update ''Gala'')) = Some (example_update ''Gala'')"
    "map_of (example_update ''Gala'') ''original_uid'' = Some (S ''X'')"
    by (simp_all add: example_record_def example_update_def example_world_def example_table_def
        example_event_def)
  have first: "?first = (fst ?first, snd ?first)" and second: "?second = (fst ?second, snd ?second)"
    by simp_all
  show ?thesis
    using cancel_twice [OF h first second] h(8) by simp
qed

subsection \<open>C9: an update that changes the event\<close>



subsection \<open>C10: what a reply overwrites in the attendee record\<close>

text \<open>
  C10. A reply that changes the status of an existing attendee record overwrites, besides
  \<^verbatim>\<open>status\<close>, the record's \<^verbatim>\<open>created\<close> with the time of the reply's processing and its
  \<^verbatim>\<open>prodid\<close> with the product identifier of the reply, and appends the history entry
  (status, time as text, product identifier); every other attribute keeps its value. The
  time the record was created at is no longer in \<^verbatim>\<open>created\<close>.
\<close>

theorem reply_overwrites_created_and_prodid:
  assumes "map_of event_reply ''uid'' = Some uid"
    and "map_of event_reply ''attendee'' = Some attendee"
    and "map_of event_reply ''partstat'' = Some (S new)"
    and "map_of event_reply ''prodid'' = Some (S prodid)"
    and "table w (''event#'' @ py_str uid, ''attendee#'' @ py_str attendee) = Some attendee_record"
    and "map_of attendee_record ''pk'' = Some pk"
    and "map_of attendee_record ''sk'' = Some sk"
    and "map_of attendee_record ''status'' = Some (S previous)"
    and "map_of attendee_record ''history'' = Some (L history)"
    and "previous \<noteq> []"
    and "new \<noteq> previous"
    and "table w (''event#'' @ py_str uid, ''event#'' @ py_str uid) = Some event"
    and "map_of event ''mailto'' = Some organizer"
    and "table w (''event#'' @ py_str uid, ''event_statistics#'' @ py_str uid) = Some es"
    and "map_of es ''rsvp'' = Some (M er)"
    and "map_of er new = Some (N ex)"
    and "map_of er previous = Some (N ey)"
    and "table w (''organizer#'' @ py_str organizer, ''organizer_statistics#'' @ py_str organizer)
         = Some os"
    and "map_of os ''rsvp'' = Some (M orr)"
    and "map_of orr new = Some (N ox)"
    and "map_of orr previous = Some (N oy)"
    and "table w (''system#'', ''system_statistics#'') = Some ss"
    and "map_of ss ''rsvp'' = Some (M sr)"
    and "map_of sr new = Some (N sx)"
    and "map_of sr previous = Some (N sy)"
    and "update_event_attendee_record_with event_reply w = (r, w')"
  shows "r = Inr ()
    \<and> (\<exists>changed.
          table w' (''event#'' @ py_str uid, ''attendee#'' @ py_str attendee) = Some changed
          \<and> map_of changed =
              (map_of attendee_record)(''created'' \<mapsto> N (utcnow w), ''prodid'' \<mapsto> S prodid,
                 ''status'' \<mapsto> S new,
                 ''history'' \<mapsto> L (history @ [L [S new, S (str_int (utcnow w)), S prodid]])))"
proof -
  note effect = rsvp_change_effect [OF assms(1-25)]
  have w': "w' = snd (update_event_attendee_record_with event_reply w)" and r: "r = Inr ()"
    using assms(26) effect by simp_all
  show ?thesis
    unfolding w' r effect
    by (simp add: update_conv')
qed

theorem reply_overwrites_created_and_prodid_witness:
  "map_of example_attendee ''created'' = Some (N 1500)
   \<and> map_of example_attendee ''prodid'' = Some (S ''p1'')
   \<and> fst (update_event_attendee_record_with (example_reply ''declined'') example_world) = Inr ()
   \<and> (\<exists>changed. table (snd (update_event_attendee_record_with (example_reply ''declined'')
                               example_world)) (''event#E1'', ''attendee#b@y.com'') = Some changed
          \<and> map_of changed ''created'' = Some (N 2000)
          \<and> map_of changed ''prodid'' = Some (S ''p2'')
          \<and> map_of changed ''status'' = Some (S ''declined'')
          \<and> map_of changed ''history''
              = Some (L [L [S ''noaction'', N 1200, S ''-//31events//calendarsnack//en''],
                         L [S ''tentative'', S ''1500'', S ''p1''],
                         L [S ''declined'', S ''2000'', S ''p2'']]))"
proof -
  let ?run = "update_event_attendee_record_with (example_reply ''declined'') example_world"
  let ?rsvp = "[(''accepted'', N 0), (''declined'', N 0), (''noaction'', N 0),
                (''tentative'', N 1)]"
  have a: "map_of (example_reply ''declined'') ''uid'' = Some (S ''E1'')"
    "map_of (example_reply ''declined'') ''attendee'' = Some (S ''b@y.com'')"
    "map_of (example_reply ''declined'') ''partstat'' = Some (S ''declined'')"
    "map_of (example_reply ''declined'') ''prodid'' = Some (S ''p2'')"
    "table example_world (''event#'' @ py_str (S ''E1''), ''attendee#'' @ py_str (S ''b@y.com''))
       = Some example_attendee"
    "map_of example_attendee ''pk'' = Some (S ''event#E1'')"
    "map_of example_attendee ''sk'' = Some (S ''attendee#b@y.com'')"
    "map_of example_attendee ''status'' = Some (S ''tentative'')"
    "map_of example_attendee ''history''
       = Some (L [L [S ''noaction'', N 1200, S ''-//31events//calendarsnack//en''],
                  L [S ''tentative'', S ''1500'', S ''p1'']])"
    "''tentative'' \<noteq> []"
    "''declined'' \<noteq> ''tentative''"
    "table example_world (''event#'' @ py_str (S ''E1''), ''event#'' @ py_str (S ''E1''))
       = Some example_event"
    "map_of example_event ''mailto'' = Some (S ''a@x.com'')"
    by (simp_all add: example_reply_def example_world_def example_table_def example_attendee_def
        example_event_def)
  have e: "table example_world
             (''event#'' @ py_str (S ''E1''), ''event_statistics#'' @ py_str (S ''E1''))
       = Some (example_statistics ''event#E1'' ''event_statistics#E1'')"
    "map_of (example_statistics ''event#E1'' ''event_statistics#E1'') ''rsvp'' = Some (M ?rsvp)"
    by (simp_all add: example_world_def example_table_def example_statistics_def)
  have o: "table example_world (''organizer#'' @ py_str (S ''a@x.com''),
             ''organizer_statistics#'' @ py_str (S ''a@x.com''))
       = Some (example_statistics ''organizer#a@x.com'' ''organizer_statistics#a@x.com'')"
    "map_of (example_statistics ''organizer#a@x.com'' ''organizer_statistics#a@x.com'')
       ''rsvp'' = Some (M ?rsvp)"
    by (simp_all add: example_world_def example_table_def example_statistics_def)
  have s: "table example_world (''system#'', ''system_statistics#'')
       = Some (example_statistics ''system#'' ''system_statistics#'')"
    "map_of (example_statistics ''system#'' ''system_statistics#'') ''rsvp'' = Some (M ?rsvp)"
    by (simp_all add: example_world_def example_table_def example_statistics_def)
  have c: "map_of ?rsvp ''declined'' = Some (N 0)" "map_of ?rsvp ''tentative'' = Some (N 1)"
    by simp_all
  have run: "?run = (fst ?run, snd ?run)"
    by simp
  have before: "map_of example_attendee ''created'' = Some (N 1500)"
    "map_of example_attendee ''prodid'' = Some (S ''p1'')"
    by (simp_all add: example_attendee_def)
  have now: "utcnow example_world = 2000"
    by (simp add: example_world_def)
  have digits: "str_int 2000 = ''2000''"
    by code_simp
  from reply_overwrites_created_and_prodid [OF a e c o c s c run] obtain changed where
    result: "fst ?run = Inr ()"
    and stored: "table (snd ?run)
                   (''event#'' @ py_str (S ''E1''), ''attendee#'' @ py_str (S ''b@y.com''))
                 = Some changed"
    and content: "map_of changed =
              (map_of example_attendee)(''created'' \<mapsto> N (utcnow example_world),
                 ''prodid'' \<mapsto> S ''p2'', ''status'' \<mapsto> S ''declined'',
                 ''history'' \<mapsto> L ([L [S ''noaction'', N 1200, S ''-//31events//calendarsnack//en''],
                                    L [S ''tentative'', S ''1500'', S ''p1'']]
                                   @ [L [S ''declined'', S (str_int (utcnow example_world)),
                                         S ''p2'']]))"
    by blast
  have "table (snd ?run) (''event#E1'', ''attendee#b@y.com'') = Some changed"
    using stored by simp
  moreover have "map_of changed ''created'' = Some (N 2000)"
    "map_of changed ''prodid'' = Some (S ''p2'')"
    "map_of changed ''status'' = Some (S ''declined'')"
    "map_of changed ''history''
       = Some (L [L [S ''noaction'', N 1200, S ''-//31events//calendarsnack//en''],
                  L [S ''tentative'', S ''1500'', S ''p1''],
                  L [S ''declined'', S ''2000'', S ''p2'']])"
    using content now digits by simp_all
  ultimately show ?thesis
    using result before by blast
qed

end
